theory Spec2Isabelle
  imports Complex_Main
begin

section \<open>Values, exceptions and the Python operations the handler uses\<close>

text \<open>
  The handler works on parsed JSON throughout: the event, the job graph, the
  parameter set and the output manifest are Python values built from \<open>None\<close>,
  booleans, numbers, strings, lists and dicts. A dict is an association list
  in insertion order: the order is what \<open>.items()\<close> iterates in, and a lookup
  finds the first entry of a key (a Python dict has each key once). A float
  is kept as a real number: the handler passes floats on and never computes
  with one. A string is a list of bytes.
\<close>

type_synonym bytes = string

datatype json =
    JNull
  | JBool bool
  | JInt int
  | JFloat real
  | JStr string
  | JList "json list"
  | JDict "(string \<times> json) list"

text \<open>
  Exceptions are values. The first four are raised by the handler's own
  \<open>raise\<close> statements and carry the message of the source; the others are
  raised by the interpreter or by a library call.
\<close>

datatype error =
    ValueError string
  | FileNotFoundError string
  | RuntimeError string
  | TimeoutError string
  | AttributeError
  | TypeError
  | KeyError string
  | NoSuchFile string
  | IsADirectory string
  | FileExists string
  | RequestException
  | HTTPError nat
  | JSONDecodeError
  | UploadFailed
  | SpawnFailed

definition and_then :: "error + 'a \<Rightarrow> ('a \<Rightarrow> error + 'b) \<Rightarrow> error + 'b" where
  "and_then r f = (case r of Inl e \<Rightarrow> Inl e | Inr x \<Rightarrow> f x)"

subsection \<open>Truthiness, membership, subscripting\<close>

definition py_truthy :: "json \<Rightarrow> bool" where
  "py_truthy j = (case j of
       JNull \<Rightarrow> False
     | JBool b \<Rightarrow> b
     | JInt i \<Rightarrow> i \<noteq> 0
     | JFloat r \<Rightarrow> r \<noteq> 0
     | JStr s \<Rightarrow> s \<noteq> []
     | JList xs \<Rightarrow> xs \<noteq> []
     | JDict kvs \<Rightarrow> kvs \<noteq> [])"

fun is_prefix :: "string \<Rightarrow> string \<Rightarrow> bool" where
  "is_prefix [] ys = True"
| "is_prefix (x # xs) [] = False"
| "is_prefix (x # xs) (y # ys) = (x = y \<and> is_prefix xs ys)"

fun is_substring :: "string \<Rightarrow> string \<Rightarrow> bool" where
  "is_substring xs [] = (xs = [])"
| "is_substring xs (y # ys) = (is_prefix xs (y # ys) \<or> is_substring xs ys)"

text \<open>\<open>obj.get(key, default)\<close>: only a dict has the method.\<close>

definition py_get :: "json \<Rightarrow> string \<Rightarrow> json \<Rightarrow> error + json" where
  "py_get obj key dflt = (case obj of
       JDict kvs \<Rightarrow> (case map_of kvs key of None \<Rightarrow> Inr dflt | Some v \<Rightarrow> Inr v)
     | _ \<Rightarrow> Inl AttributeError)"

text \<open>
  \<open>key in obj\<close> for a string key: a key of a dict, an element of a list, a
  substring of a string; any other value is not iterable.
\<close>

definition py_contains :: "string \<Rightarrow> json \<Rightarrow> error + bool" where
  "py_contains key obj = (case obj of
       JDict kvs \<Rightarrow> Inr (map_of kvs key \<noteq> None)
     | JList xs \<Rightarrow> Inr (JStr key \<in> set xs)
     | JStr s \<Rightarrow> Inr (is_substring key s)
     | _ \<Rightarrow> Inl TypeError)"

text \<open>\<open>obj[key]\<close> for a string key: a list or a string wants an integer index.\<close>

definition py_getitem :: "json \<Rightarrow> string \<Rightarrow> error + json" where
  "py_getitem obj key = (case obj of
       JDict kvs \<Rightarrow> (case map_of kvs key of None \<Rightarrow> Inl (KeyError key) | Some v \<Rightarrow> Inr v)
     | _ \<Rightarrow> Inl TypeError)"

text \<open>
  \<open>d[key] = v\<close> on a dict: an existing key keeps its place, a new key goes
  last.
\<close>

fun dict_set :: "string \<Rightarrow> json \<Rightarrow> (string \<times> json) list \<Rightarrow> (string \<times> json) list" where
  "dict_set k v [] = [(k, v)]"
| "dict_set k v (p # ps) = (if fst p = k then (k, v) # ps else p # dict_set k v ps)"

definition py_setitem :: "json \<Rightarrow> string \<Rightarrow> json \<Rightarrow> error + json" where
  "py_setitem obj key v = (case obj of
       JDict kvs \<Rightarrow> Inr (JDict (dict_set key v kvs))
     | _ \<Rightarrow> Inl TypeError)"

text \<open>
  \<open>for x in obj\<close>: the elements of a list, the keys of a dict, the characters
  of a string.
\<close>

definition py_iter :: "json \<Rightarrow> error + json list" where
  "py_iter obj = (case obj of
       JList xs \<Rightarrow> Inr xs
     | JDict kvs \<Rightarrow> Inr (map (\<lambda>kv. JStr (fst kv)) kvs)
     | JStr s \<Rightarrow> Inr (map (\<lambda>c. JStr [c]) s)
     | _ \<Rightarrow> Inl TypeError)"

text \<open>\<open>obj.items()\<close>.\<close>

definition py_items :: "json \<Rightarrow> error + (string \<times> json) list" where
  "py_items obj = (case obj of JDict kvs \<Rightarrow> Inr kvs | _ \<Rightarrow> Inl AttributeError)"

subsection \<open>Strings: decimal numerals, joining, paths, base64\<close>

definition digit_char :: "nat \<Rightarrow> char" where
  "digit_char d = ''0123456789'' ! (d mod 10)"

fun show_nat :: "nat \<Rightarrow> string" where
  "show_nat n = (if n < 10 then [digit_char n] else show_nat (n div 10) @ [digit_char (n mod 10)])"

declare show_nat.simps [simp del]

definition show_int :: "int \<Rightarrow> string" where
  "show_int i = (if i < 0 then CHR ''-'' # show_nat (nat (- i)) else show_nat (nat i))"

text \<open>\<open>sep.join(xs)\<close>.\<close>

fun join_with :: "string \<Rightarrow> string list \<Rightarrow> string" where
  "join_with sep [] = []"
| "join_with sep [x] = x"
| "join_with sep (x # y # ys) = x @ sep @ join_with sep (y # ys)"

text \<open>
  \<open>os.path.basename\<close>, \<open>os.path.dirname\<close>, \<open>os.path.join\<close> of two parts and the
  extension of \<open>os.path.splitext\<close>, on POSIX paths. The extension starts at the
  last dot of the last component, unless only dots come before it there.
\<close>

definition basename :: "string \<Rightarrow> string" where
  "basename p = rev (takeWhile (\<lambda>c. c \<noteq> CHR ''/'') (rev p))"

definition dirname :: "string \<Rightarrow> string" where
  "dirname p =
     (let head = rev (dropWhile (\<lambda>c. c \<noteq> CHR ''/'') (rev p));
          stripped = rev (dropWhile (\<lambda>c. c = CHR ''/'') (rev head))
      in if stripped = [] then head else stripped)"

definition path_join :: "string \<Rightarrow> string \<Rightarrow> string" where
  "path_join a b =
     (if is_prefix ''/'' b then b
      else if a = [] \<or> last a = CHR ''/'' then a @ b
      else a @ ''/'' @ b)"

definition py_path_join :: "string \<Rightarrow> json \<Rightarrow> error + string" where
  "py_path_join a b = (case b of JStr s \<Rightarrow> Inr (path_join a s) | _ \<Rightarrow> Inl TypeError)"

definition splitext_ext :: "string \<Rightarrow> string" where
  "splitext_ext p =
     (let b = basename p;
          after = rev (takeWhile (\<lambda>c. c \<noteq> CHR ''.'') (rev b));
          stem = take (length b - length after - 1) b
      in if CHR ''.'' \<in> set b \<and> (\<exists>c \<in> set stem. c \<noteq> CHR ''.'') then CHR ''.'' # after else [])"

definition b64_alphabet :: string where
  "b64_alphabet = ''ABCDEFGHIJKLMNOPQRSTUVWXYZabcdefghijklmnopqrstuvwxyz0123456789+/''"

definition b64_char :: "nat \<Rightarrow> char" where
  "b64_char i = b64_alphabet ! (i mod 64)"

fun b64encode :: "bytes \<Rightarrow> string" where
  "b64encode [] = []"
| "b64encode [a] =
     (let n = (of_char a :: nat) * 16
      in [b64_char (n div 64), b64_char n, CHR ''='', CHR ''=''])"
| "b64encode [a, b] =
     (let n = ((of_char a :: nat) * 256 + of_char b) * 4
      in [b64_char (n div 4096), b64_char (n div 64), b64_char n, CHR ''=''])"
| "b64encode (a # b # c # rest) =
     (let n = (of_char a :: nat) * 65536 + of_char b * 256 + of_char c
      in [b64_char (n div 262144), b64_char (n div 4096), b64_char (n div 64), b64_char n]
         @ b64encode rest)"

section \<open>The worker's state and its external collaborators\<close>

text \<open>
  The worker's state is the two module globals \<open>comfyui_process\<close> and
  \<open>comfyui_ready\<close>, a logical clock (what \<open>time.time()\<close> reads, in whole
  time-units), the local file system, and a trace of the calls made to the
  outside, each with the time it was made at. An exception does not undo a
  state change, so every stateful operation returns its outcome together
  with the state it leaves. What the handler prints is left out.
\<close>

datatype fs_entry = File bytes | Dir

datatype call =
    Spawn
  | PollProcess nat
  | GetSystemStats
  | PostPrompt json
  | GetHistory string
  | GetUrl json
  | PutObject string string

record world =
  comfyui_process :: "nat option"
  comfyui_ready :: bool
  clock :: nat
  fs :: "string \<Rightarrow> fs_entry option"
  trace :: "(nat \<times> call) list"

text \<open>
  The environment holds what the handler does not decide: the four
  remote-storage settings read from the process environment, and the
  behaviour of the inference server's process, of its HTTP endpoints, of the
  asset host and of the object store, each as a function of the time of the
  call. \<open>http_post_prompt\<close> gives the outcome of the request together with
  the outcome of \<open>response.json()["prompt_id"]\<close>, a string by the server's
  protocol; \<open>http_get_history\<close> gives the outcome of the request followed by
  \<open>response.json()\<close>. \<open>json_load\<close>, \<open>py_repr\<close> and \<open>exc_text\<close> are Python's own
  \<open>json.load\<close>, \<open>repr\<close> of a compound value or a float, and \<open>str\<close> of a library
  exception.
\<close>

record env =
  s3_endpoint_url :: "string option"
  s3_bucket :: "string option"
  s3_access_key_id :: "string option"
  s3_secret_access_key :: "string option"
  popen :: "nat \<Rightarrow> error + nat"
  process_running :: "nat \<Rightarrow> nat \<Rightarrow> bool"
  process_stderr :: "nat \<Rightarrow> string"
  latency :: "nat \<Rightarrow> nat"
  http_system_stats :: "nat \<Rightarrow> nat option"
  http_post_prompt :: "json \<Rightarrow> nat \<Rightarrow> error + nat \<times> (error + string)"
  http_get_history :: "string \<Rightarrow> nat \<Rightarrow> error + json"
  http_get_url :: "json \<Rightarrow> nat \<Rightarrow> error + nat \<times> bytes"
  s3_upload_file :: "string \<Rightarrow> string \<Rightarrow> string \<Rightarrow> nat \<Rightarrow> error option"
  json_load :: "bytes \<Rightarrow> error + json"
  dir_size :: "string \<Rightarrow> nat"
  py_repr :: "json \<Rightarrow> string"
  exc_text :: "error \<Rightarrow> string"

definition log_call :: "call \<Rightarrow> world \<Rightarrow> world" where
  "log_call c w = w\<lparr>trace := trace w @ [(clock w, c)]\<rparr>"

definition request :: "env \<Rightarrow> call \<Rightarrow> world \<Rightarrow> world" where
  "request env c w = w\<lparr>clock := clock w + latency env (clock w), trace := trace w @ [(clock w, c)]\<rparr>"

definition sleep :: "nat \<Rightarrow> world \<Rightarrow> world" where
  "sleep n w = w\<lparr>clock := clock w + n\<rparr>"

definition py_str :: "env \<Rightarrow> json \<Rightarrow> string" where
  "py_str env j = (case j of
       JNull \<Rightarrow> ''None''
     | JBool b \<Rightarrow> (if b then ''True'' else ''False'')
     | JInt i \<Rightarrow> show_int i
     | JStr s \<Rightarrow> s
     | _ \<Rightarrow> py_repr env j)"

definition str_of_error :: "env \<Rightarrow> error \<Rightarrow> string" where
  "str_of_error env e = (case e of
       ValueError m \<Rightarrow> m
     | FileNotFoundError m \<Rightarrow> m
     | RuntimeError m \<Rightarrow> m
     | TimeoutError m \<Rightarrow> m
     | _ \<Rightarrow> exc_text env e)"

definition raise_for_status :: "nat \<Rightarrow> bool" where
  "raise_for_status status = (400 \<le> status \<and> status < 600)"

definition WORKFLOWS_DIR :: string where
  "WORKFLOWS_DIR = ''/comfyui/workflows''"

definition AVAILABLE_WORKFLOWS :: "(string \<times> string) list" where
  "AVAILABLE_WORKFLOWS =
     [(''t2v'', ''t2v.json''), (''i2v'', ''i2v.json''),
      (''fun_camera'', ''fun_camera.json''), (''vace'', ''vace.json'')]"

section \<open>Process supervisor: \<open>start_comfyui\<close>\<close>

text \<open>
  The readiness loop of \<open>start_comfyui\<close>: \<open>n\<close> attempts are left. Each asks
  \<open>/system_stats\<close>; status 200 sets the flag and returns; otherwise the
  process is polled, and the loop sleeps two time-units.
\<close>

fun wait_ready :: "env \<Rightarrow> nat \<Rightarrow> nat \<Rightarrow> world \<Rightarrow> (error + unit) \<times> world" where
  "wait_ready env pid 0 w =
     (Inl (RuntimeError ''ComfyUI API server failed to start within timeout''), w)"
| "wait_ready env pid (Suc n) w =
     (let w1 = request env GetSystemStats w
      in if http_system_stats env (clock w) = Some 200
         then (Inr (), w1\<lparr>comfyui_ready := True\<rparr>)
         else let w2 = log_call (PollProcess pid) w1
              in if \<not> process_running env pid (clock w2)
                 then (Inl (RuntimeError (''ComfyUI process died: '' @ process_stderr env pid)), w2)
                 else wait_ready env pid n (sleep 2 w2))"

definition spawn_and_wait :: "env \<Rightarrow> world \<Rightarrow> (error + unit) \<times> world" where
  "spawn_and_wait env w =
     (case popen env (clock w) of
        Inl e \<Rightarrow> (Inl e, w)
      | Inr pid \<Rightarrow> wait_ready env pid 60 (log_call Spawn (w\<lparr>comfyui_process := Some pid\<rparr>)))"

definition start_comfyui :: "env \<Rightarrow> world \<Rightarrow> (error + unit) \<times> world" where
  "start_comfyui env w =
     (case comfyui_process w of
        None \<Rightarrow> spawn_and_wait env w
      | Some pid \<Rightarrow>
          if comfyui_ready w then (Inr (), w)
          else let w1 = log_call (PollProcess pid) w
               in if process_running env pid (clock w1) then (Inr (), w1)
                  else spawn_and_wait env (w1\<lparr>comfyui_process := None\<rparr>))"

section \<open>Workflow loader: \<open>load_workflow\<close>\<close>

text \<open>
  \<open>workflow_type not in AVAILABLE_WORKFLOWS\<close> hashes the key: a list or a dict
  is unhashable, and no other non-string value equals a key of the registry.
\<close>

definition registry_lookup :: "json \<Rightarrow> error + string option" where
  "registry_lookup workflow_type = (case workflow_type of
       JStr s \<Rightarrow> Inr (map_of AVAILABLE_WORKFLOWS s)
     | JList xs \<Rightarrow> Inl TypeError
     | JDict kvs \<Rightarrow> Inl TypeError
     | _ \<Rightarrow> Inr None)"

definition load_workflow :: "env \<Rightarrow> (string \<Rightarrow> fs_entry option) \<Rightarrow> json \<Rightarrow> error + json" where
  "load_workflow env fsys workflow_type =
     (case registry_lookup workflow_type of
        Inl e \<Rightarrow> Inl e
      | Inr None \<Rightarrow>
          Inl (ValueError (''Unknown workflow_type: '' @ py_str env workflow_type
                 @ ''. Available: '' @ join_with '', '' (map fst AVAILABLE_WORKFLOWS)))
      | Inr (Some file) \<Rightarrow>
          (let workflow_path = path_join WORKFLOWS_DIR file
           in case fsys workflow_path of
                None \<Rightarrow> Inl (FileNotFoundError (''Workflow file not found: '' @ workflow_path))
              | Some Dir \<Rightarrow> Inl (IsADirectory workflow_path)
              | Some (File content) \<Rightarrow> json_load env content))"

section \<open>Asset download and remote upload\<close>

text \<open>
  \<open>download_image\<close>: the request and \<open>raise_for_status\<close>, then
  \<open>os.makedirs(dirname, exist_ok=True)\<close>, which fails when the directory's
  path is empty or is a file, then the write, which fails when the path is a
  directory.
\<close>

definition download_image :: "env \<Rightarrow> json \<Rightarrow> string \<Rightarrow> world \<Rightarrow> (error + string) \<times> world" where
  "download_image env url save_path w =
     (let w1 = request env (GetUrl url) w
      in case http_get_url env url (clock w) of
           Inl e \<Rightarrow> (Inl e, w1)
         | Inr (status, content) \<Rightarrow>
             if raise_for_status status then (Inl (HTTPError status), w1)
             else if dirname save_path = [] then (Inl (NoSuchFile []), w1)
             else (case fs w1 (dirname save_path) of
                     Some (File c) \<Rightarrow> (Inl (FileExists (dirname save_path)), w1)
                   | _ \<Rightarrow>
                      (let w2 = w1\<lparr>fs := (fs w1)(dirname save_path \<mapsto> Dir)\<rparr>
                       in case fs w2 save_path of
                            Some Dir \<Rightarrow> (Inl (IsADirectory save_path), w2)
                          | _ \<Rightarrow> (Inr save_path, w2\<lparr>fs := (fs w2)(save_path \<mapsto> File content)\<rparr>))))"

text \<open>
  \<open>all([...])\<close> over the four settings: an unset variable is \<open>None\<close>, and an
  empty string is as falsy as \<open>None\<close>. \<open>upload_to_s3\<close> then makes the client
  and puts the object (one call of the object store, which may raise) and
  builds the URL from the endpoint without a trailing slash.
\<close>

definition setting_present :: "string option \<Rightarrow> bool" where
  "setting_present v = (case v of None \<Rightarrow> False | Some s \<Rightarrow> s \<noteq> [])"

definition s3_configured :: "env \<Rightarrow> bool" where
  "s3_configured env =
     (setting_present (s3_endpoint_url env) \<and> setting_present (s3_bucket env)
      \<and> setting_present (s3_access_key_id env) \<and> setting_present (s3_secret_access_key env))"

definition upload_to_s3 :: "env \<Rightarrow> string \<Rightarrow> string \<Rightarrow> world \<Rightarrow> (error + string) \<times> world" where
  "upload_to_s3 env file_path s3_key w =
     (case (s3_endpoint_url env, s3_bucket env) of
        (Some endpoint, Some bucket) \<Rightarrow>
          if \<not> s3_configured env then (Inl (ValueError ''S3 configuration is incomplete''), w)
          else (let w1 = request env (PutObject file_path s3_key) w
                in case s3_upload_file env file_path bucket s3_key (clock w) of
                     Some e \<Rightarrow> (Inl e, w1)
                   | None \<Rightarrow>
                       (let base_url = (if last endpoint = CHR ''/'' then butlast endpoint else endpoint)
                        in (Inr (base_url @ ''/'' @ bucket @ ''/'' @ s3_key), w1)))
      | _ \<Rightarrow> (Inl (ValueError ''S3 configuration is incomplete''), w))"

section \<open>Job client: \<open>queue_workflow\<close> and \<open>wait_for_completion\<close>\<close>

text \<open>
  \<open>queue_workflow\<close>: the POST, \<open>raise_for_status\<close>, and the handle read from
  the body.
\<close>

definition queue_workflow :: "env \<Rightarrow> json \<Rightarrow> world \<Rightarrow> (error + string) \<times> world" where
  "queue_workflow env workflow w =
     (let w1 = request env (PostPrompt workflow) w
      in case http_post_prompt env workflow (clock w) of
           Inl e \<Rightarrow> (Inl e, w1)
         | Inr (status, body) \<Rightarrow>
             if raise_for_status status then (Inl (HTTPError status), w1)
             else (body, w1))"

text \<open>
  What one round of the polling loop reads from the reply (lines 158 to 164):
  \<open>Some output\<close> is the \<open>return\<close>, \<open>None\<close> means the loop goes on.
\<close>

definition history_outputs :: "env \<Rightarrow> string \<Rightarrow> nat \<Rightarrow> error + json option" where
  "history_outputs env prompt_id t =
     and_then (http_get_history env prompt_id t) (\<lambda>history.
     and_then (py_contains prompt_id history) (\<lambda>present.
       if present
       then and_then (py_getitem history prompt_id) (\<lambda>entry.
            and_then (py_getitem entry ''outputs'') (\<lambda>output.
              Inr (if py_truthy output then Some output else None)))
       else Inr None))"

definition poll_history :: "env \<Rightarrow> string \<Rightarrow> world \<Rightarrow> (error + json option) \<times> world" where
  "poll_history env prompt_id w =
     (history_outputs env prompt_id (clock w), request env (GetHistory prompt_id) w)"

function wait_loop :: "env \<Rightarrow> string \<Rightarrow> int \<Rightarrow> nat \<Rightarrow> world \<Rightarrow> (error + json) \<times> world" where
  "wait_loop env prompt_id timeout start_time w =
     (if int (clock w) - int start_time < timeout
      then (case poll_history env prompt_id w of
              (Inl e, w1) \<Rightarrow> (Inl e, w1)
            | (Inr (Some output), w1) \<Rightarrow> (Inr output, w1)
            | (Inr None, w1) \<Rightarrow> wait_loop env prompt_id timeout start_time (sleep 1 w1))
      else (Inl (TimeoutError (''Workflow '' @ prompt_id @ '' did not complete within ''
                    @ show_int timeout @ '' seconds'')), w))"
  by pat_completeness auto
termination
  by (relation "measure (\<lambda>(env, prompt_id, timeout, start_time, w).
                   nat (timeout - (int (clock w) - int start_time)))")
     (auto simp: poll_history_def request_def sleep_def)

declare wait_loop.simps [simp del]

definition wait_for_completion :: "env \<Rightarrow> string \<Rightarrow> int \<Rightarrow> world \<Rightarrow> (error + json) \<times> world" where
  "wait_for_completion env prompt_id timeout w = wait_loop env prompt_id timeout (clock w) w"

text \<open>The default of the parameter \<open>timeout\<close>, which is what \<open>handler\<close> calls it with.\<close>

definition DEFAULT_TIMEOUT :: int where
  "DEFAULT_TIMEOUT = 600"

section \<open>Output collector: \<open>get_output_files\<close>\<close>

definition OUTPUT_DIR :: string where
  "OUTPUT_DIR = ''/comfyui/output''"

text \<open>The inner loop over one list of media descriptors; \<open>files\<close> is the accumulator.\<close>

fun collect_infos :: "(string \<Rightarrow> fs_entry option) \<Rightarrow> json list \<Rightarrow> string list \<Rightarrow> error + string list" where
  "collect_infos fsys [] files = Inr files"
| "collect_infos fsys (info # infos) files =
     (case py_contains ''filename'' info of
        Inl e \<Rightarrow> Inl e
      | Inr has_filename \<Rightarrow>
          if has_filename
          then (case py_getitem info ''filename'' of
                  Inl e \<Rightarrow> Inl e
                | Inr filename \<Rightarrow>
                    (case py_path_join OUTPUT_DIR filename of
                       Inl e \<Rightarrow> Inl e
                     | Inr file_path \<Rightarrow>
                         collect_infos fsys infos
                           (if fsys file_path \<noteq> None then files @ [file_path] else files)))
          else collect_infos fsys infos files)"

text \<open>\<open>if key in node_output: for info in node_output[key]: ...\<close>\<close>

definition collect_list :: "(string \<Rightarrow> fs_entry option) \<Rightarrow> string \<Rightarrow> json \<Rightarrow> string list \<Rightarrow> error + string list" where
  "collect_list fsys key node_output files =
     and_then (py_contains key node_output) (\<lambda>present.
       if present
       then and_then (py_getitem node_output key) (\<lambda>listed.
            and_then (py_iter listed) (\<lambda>infos. collect_infos fsys infos files))
       else Inr files)"

fun collect_nodes :: "(string \<Rightarrow> fs_entry option) \<Rightarrow> (string \<times> json) list \<Rightarrow> string list \<Rightarrow> error + string list" where
  "collect_nodes fsys [] files = Inr files"
| "collect_nodes fsys ((node_id, node_output) # rest) files =
     (case collect_list fsys ''images'' node_output files of
        Inl e \<Rightarrow> Inl e
      | Inr files1 \<Rightarrow>
          (case collect_list fsys ''videos'' node_output files1 of
             Inl e \<Rightarrow> Inl e
           | Inr files2 \<Rightarrow> collect_nodes fsys rest files2))"

definition get_output_files :: "(string \<Rightarrow> fs_entry option) \<Rightarrow> json \<Rightarrow> error + string list" where
  "get_output_files fsys outputs =
     and_then (py_items outputs) (\<lambda>nodes. collect_nodes fsys nodes [])"

section \<open>Parameter binder: \<open>update_workflow_with_inputs\<close>\<close>

text \<open>
  \<open>node["inputs"][key] = v\<close>. The inner dict is changed in place; in the
  model the node gets the changed dict back under \<open>inputs\<close>, at the place the
  key has.
\<close>

definition set_input :: "json \<Rightarrow> string \<Rightarrow> json \<Rightarrow> error + json" where
  "set_input node key v =
     and_then (py_getitem node ''inputs'') (\<lambda>inputs.
     and_then (py_setitem inputs key v) (\<lambda>inputs'.
       py_setitem node ''inputs'' inputs'))"

text \<open>The first \<open>if\<close> of the loop body: text prompts.\<close>

definition update_text :: "json \<Rightarrow> json \<Rightarrow> error + json" where
  "update_text node params =
     and_then (py_get node ''class_type'' JNull) (\<lambda>class_type.
       if class_type = JStr ''CLIPTextEncode''
       then and_then (py_get node ''inputs'' (JDict [])) (\<lambda>inputs.
            and_then (py_contains ''text'' inputs) (\<lambda>has_text.
              if has_text
              then and_then (py_contains ''positive_prompt'' params) (\<lambda>has_positive.
                     if has_positive
                     then and_then (py_getitem params ''positive_prompt'') (\<lambda>v.
                            set_input node ''text'' v)
                     else and_then (py_contains ''prompt'' params) (\<lambda>has_prompt.
                            if has_prompt
                            then and_then (py_getitem params ''prompt'') (\<lambda>v.
                                   set_input node ''text'' v)
                            else Inr node))
              else Inr node))
       else Inr node)"

text \<open>The second \<open>if\<close> of the loop body: image inputs.\<close>

definition update_image :: "env \<Rightarrow> string \<Rightarrow> json \<Rightarrow> json \<Rightarrow> world \<Rightarrow> (error + json) \<times> world" where
  "update_image env node_id node params w =
     (case py_get node ''class_type'' JNull of
        Inl e \<Rightarrow> (Inl e, w)
      | Inr class_type \<Rightarrow>
          if class_type = JStr ''LoadImage''
          then (case py_contains ''image_url'' params of
                  Inl e \<Rightarrow> (Inl e, w)
                | Inr has_url \<Rightarrow>
                    if has_url
                    then (case py_getitem params ''image_url'' of
                            Inl e \<Rightarrow> (Inl e, w)
                          | Inr url \<Rightarrow>
                              (case download_image env url
                                      (''/tmp/input_image_'' @ node_id @ ''.png'') w of
                                 (Inl e, w1) \<Rightarrow> (Inl e, w1)
                               | (Inr image_path, w1) \<Rightarrow>
                                   (set_input node ''image'' (JStr (basename image_path)), w1)))
                    else (Inr node, w))
          else (Inr node, w))"

fun update_nodes :: "env \<Rightarrow> json \<Rightarrow> (string \<times> json) list \<Rightarrow> world \<Rightarrow> (error + (string \<times> json) list) \<times> world" where
  "update_nodes env params [] w = (Inr [], w)"
| "update_nodes env params ((node_id, node) # rest) w =
     (case update_text node params of
        Inl e \<Rightarrow> (Inl e, w)
      | Inr node1 \<Rightarrow>
          (case update_image env node_id node1 params w of
             (Inl e, w1) \<Rightarrow> (Inl e, w1)
           | (Inr node2, w1) \<Rightarrow>
               (case update_nodes env params rest w1 of
                  (Inl e, w2) \<Rightarrow> (Inl e, w2)
                | (Inr rest', w2) \<Rightarrow> (Inr ((node_id, node2) # rest'), w2))))"

definition update_workflow_with_inputs :: "env \<Rightarrow> json \<Rightarrow> json \<Rightarrow> world \<Rightarrow> (error + json) \<times> world" where
  "update_workflow_with_inputs env workflow params w =
     (case py_items workflow of
        Inl e \<Rightarrow> (Inl e, w)
      | Inr nodes \<Rightarrow>
          (case update_nodes env params nodes w of
             (Inl e, w1) \<Rightarrow> (Inl e, w1)
           | (Inr nodes', w1) \<Rightarrow> (Inr (JDict nodes'), w1)))"

section \<open>Delivery pipeline and \<open>handler\<close>\<close>

definition VIDEO_EXTS :: "string list" where
  "VIDEO_EXTS = [''.mp4'', ''.webm'', ''.avi'', ''.mov'']"

definition IMAGE_EXTS :: "string list" where
  "IMAGE_EXTS = [''.png'', ''.jpg'', ''.jpeg'']"

text \<open>The classification on the upload path (line 313 of the source).\<close>

definition file_type_uploaded :: "string \<Rightarrow> string" where
  "file_type_uploaded file_ext =
     (if file_ext \<in> set VIDEO_EXTS then ''video''
      else if file_ext \<in> set IMAGE_EXTS then ''image'' else ''unknown'')"

text \<open>The classification on the base64 path (line 326 of the source).\<close>

definition file_type_inline :: "string \<Rightarrow> string" where
  "file_type_inline file_ext = (if file_ext \<in> set VIDEO_EXTS then ''video'' else ''image'')"

definition getsize :: "env \<Rightarrow> (string \<Rightarrow> fs_entry option) \<Rightarrow> string \<Rightarrow> error + nat" where
  "getsize env fsys p = (case fsys p of
       None \<Rightarrow> Inl (NoSuchFile p)
     | Some Dir \<Rightarrow> Inr (dir_size env p)
     | Some (File content) \<Rightarrow> Inr (length content))"

definition read_file :: "(string \<Rightarrow> fs_entry option) \<Rightarrow> string \<Rightarrow> error + bytes" where
  "read_file fsys p = (case fsys p of
       None \<Rightarrow> Inl (NoSuchFile p)
     | Some Dir \<Rightarrow> Inl (IsADirectory p)
     | Some (File content) \<Rightarrow> Inr content)"

definition MAX_INLINE :: nat where
  "MAX_INLINE = 10 * 1024 * 1024"

definition url_record :: "string \<Rightarrow> string \<Rightarrow> string \<Rightarrow> json" where
  "url_record file_type url filename =
     JDict [(''type'', JStr file_type), (''url'', JStr url), (''filename'', JStr filename)]"

definition inline_record :: "string \<Rightarrow> string \<Rightarrow> string \<Rightarrow> json" where
  "inline_record file_type file_data format =
     JDict [(''type'', JStr file_type), (''data'', JStr file_data), (''format'', JStr format)]"

definition error_record :: "nat \<Rightarrow> json" where
  "error_record file_size =
     JDict [(''type'', JStr ''error''),
            (''error'', JStr (''File too large for base64 encoding: '' @ show_nat file_size @ '' bytes''))]"

text \<open>The \<open>except\<close> branch of the loop body: the record for a file whose upload failed.\<close>

definition fallback_record :: "env \<Rightarrow> (string \<Rightarrow> fs_entry option) \<Rightarrow> string \<Rightarrow> string \<Rightarrow> error + json" where
  "fallback_record env fsys file_path file_ext =
     and_then (getsize env fsys file_path) (\<lambda>file_size.
       if file_size < MAX_INLINE
       then and_then (read_file fsys file_path) (\<lambda>content.
              Inr (inline_record (file_type_inline file_ext) (b64encode content) (drop 1 file_ext)))
       else Inr (error_record file_size))"

definition s3_key_of :: "env \<Rightarrow> json \<Rightarrow> nat \<Rightarrow> nat \<Rightarrow> string \<Rightarrow> string" where
  "s3_key_of env workflow_name timestamp i file_ext =
     ''generated/'' @ py_str env workflow_name @ ''/'' @ show_nat timestamp @ ''_'' @ show_nat i @ file_ext"

text \<open>The body of the delivery loop: the record for one file.\<close>

definition deliver_one :: "env \<Rightarrow> json \<Rightarrow> nat \<Rightarrow> nat \<Rightarrow> string \<Rightarrow> world \<Rightarrow> (error + json) \<times> world" where
  "deliver_one env workflow_name timestamp i file_path w =
     (let file_ext = splitext_ext file_path;
          s3_key = s3_key_of env workflow_name timestamp i file_ext
      in case upload_to_s3 env file_path s3_key w of
           (Inr url, w1) \<Rightarrow>
             (Inr (url_record (file_type_uploaded file_ext) url (basename file_path)), w1)
         | (Inl e, w1) \<Rightarrow> (fallback_record env (fs w1) file_path file_ext, w1))"

text \<open>
  The delivery loop, \<open>for i, file_path in enumerate(output_files)\<close>;
  \<open>output_urls\<close> is the accumulator.
\<close>

fun deliver :: "env \<Rightarrow> json \<Rightarrow> nat \<Rightarrow> nat \<Rightarrow> string list \<Rightarrow> json list \<Rightarrow> world \<Rightarrow> (error + json list) \<times> world" where
  "deliver env workflow_name timestamp i [] output_urls w = (Inr output_urls, w)"
| "deliver env workflow_name timestamp i (file_path # rest) output_urls w =
     (case deliver_one env workflow_name timestamp i file_path w of
        (Inl e, w1) \<Rightarrow> (Inl e, w1)
      | (Inr r, w1) \<Rightarrow>
          deliver env workflow_name timestamp (Suc i) rest (output_urls @ [r]) w1)"

definition failed_early :: "string \<Rightarrow> json" where
  "failed_early msg = JDict [(''error'', JStr msg), (''status'', JStr ''FAILED'')]"

definition failed_exception :: "string \<Rightarrow> nat \<Rightarrow> json" where
  "failed_exception msg elapsed =
     JDict [(''error'', JStr msg), (''status'', JStr ''FAILED''),
            (''execution_time'', JFloat (real elapsed))]"

definition completed :: "json list \<Rightarrow> json \<Rightarrow> nat \<Rightarrow> string \<Rightarrow> json" where
  "completed output_urls workflow_name elapsed prompt_id =
     JDict [(''status'', JStr ''COMPLETED''),
            (''outputs'', JList output_urls),
            (''metadata'', JDict [(''workflow_name'', workflow_name),
                                  (''execution_time'', JFloat (real elapsed)),
                                  (''prompt_id'', JStr prompt_id)])]"

text \<open>
  The body of the \<open>try\<close>, in three parts. \<open>ensure_started\<close> is
  \<open>if not comfyui_ready: start_comfyui()\<close>.
\<close>

definition ensure_started :: "env \<Rightarrow> world \<Rightarrow> (error + unit) \<times> world" where
  "ensure_started env w = (if \<not> comfyui_ready w then start_comfyui env w else (Inr (), w))"

text \<open>From the queued workflow to the result: lines 289 to 348.\<close>

definition run_and_deliver :: "env \<Rightarrow> nat \<Rightarrow> json \<Rightarrow> json \<Rightarrow> world \<Rightarrow> (error + json) \<times> world" where
  "run_and_deliver env start_time workflow_name workflow w =
     (case queue_workflow env workflow w of
        (Inl e, w1) \<Rightarrow> (Inl e, w1)
      | (Inr prompt_id, w1) \<Rightarrow>
          (case wait_for_completion env prompt_id DEFAULT_TIMEOUT w1 of
             (Inl e, w2) \<Rightarrow> (Inl e, w2)
           | (Inr outputs, w2) \<Rightarrow>
               (case get_output_files (fs w2) outputs of
                  Inl e \<Rightarrow> (Inl e, w2)
                | Inr output_files \<Rightarrow>
                    if output_files = [] then (Inr (failed_early ''No output files generated''), w2)
                    else (case deliver env workflow_name (clock w2) 0 output_files [] w2 of
                            (Inl e, w3) \<Rightarrow> (Inl e, w3)
                          | (Inr output_urls, w3) \<Rightarrow>
                              (Inr (completed output_urls workflow_name
                                      (clock w3 - start_time) prompt_id), w3)))))"

text \<open>From the parsed input to the result: lines 273 to 348.\<close>

definition run_job :: "env \<Rightarrow> nat \<Rightarrow> json \<Rightarrow> json \<Rightarrow> json \<Rightarrow> world \<Rightarrow> (error + json) \<times> world" where
  "run_job env start_time workflow_name workflow_json params w =
     (if \<not> py_truthy workflow_name \<and> \<not> py_truthy workflow_json
      then (Inr (failed_early ''workflow_name or workflow_json is required''), w)
      else (case (if py_truthy workflow_json then Inr workflow_json
                  else load_workflow env (fs w) workflow_name) of
              Inl e \<Rightarrow> (Inl e, w)
            | Inr workflow \<Rightarrow>
                (case update_workflow_with_inputs env workflow params w of
                   (Inl e, w1) \<Rightarrow> (Inl e, w1)
                 | (Inr workflow', w1) \<Rightarrow>
                     run_and_deliver env start_time workflow_name workflow' w1)))"

definition handler_try :: "env \<Rightarrow> nat \<Rightarrow> json \<Rightarrow> world \<Rightarrow> (error + json) \<times> world" where
  "handler_try env start_time event w =
     (case ensure_started env w of
        (Inl e, w1) \<Rightarrow> (Inl e, w1)
      | (Inr u, w1) \<Rightarrow>
          (case py_get event ''input'' (JDict []) of
             Inl e \<Rightarrow> (Inl e, w1)
           | Inr input_data \<Rightarrow>
               (case py_get input_data ''workflow_name'' JNull of
                  Inl e \<Rightarrow> (Inl e, w1)
                | Inr workflow_name \<Rightarrow>
                    (case py_get input_data ''workflow_json'' JNull of
                       Inl e \<Rightarrow> (Inl e, w1)
                     | Inr workflow_json \<Rightarrow>
                         (case py_get input_data ''params'' (JDict []) of
                            Inl e \<Rightarrow> (Inl e, w1)
                          | Inr params \<Rightarrow>
                              (case py_get input_data ''input_assets'' (JList []) of
                                 Inl e \<Rightarrow> (Inl e, w1)
                               | Inr input_assets \<Rightarrow>
                                   run_job env start_time workflow_name workflow_json params w1))))))"

text \<open>
  \<open>handler\<close>: the \<open>try\<close> and its \<open>except Exception\<close>. The result is the
  returned mapping and the state the invocation leaves.
\<close>

definition handler :: "env \<Rightarrow> json \<Rightarrow> world \<Rightarrow> json \<times> world" where
  "handler env event w =
     (let start_time = clock w
      in case handler_try env start_time event w of
           (Inr result, w') \<Rightarrow> (result, w')
         | (Inl e, w') \<Rightarrow> (failed_exception (str_of_error env e) (clock w' - start_time), w'))"

section \<open>What the specification speaks of\<close>

subsection \<open>The output manifest\<close>

text \<open>
  The manifest as the specification describes it: each node's record lists
  media descriptors under \<open>images\<close> and under \<open>videos\<close>, and a descriptor
  names a file. \<open>collect_spec\<close> is the collector in the specification's
  words: node by node, the image list before the video list, each in list
  order, the output directory joined with the filename, kept when the path
  exists on disk.
\<close>

definition descriptor_filename :: "json \<Rightarrow> string option" where
  "descriptor_filename info = (case info of
       JDict kvs \<Rightarrow> (case map_of kvs ''filename'' of Some (JStr name) \<Rightarrow> Some name | _ \<Rightarrow> None)
     | _ \<Rightarrow> None)"

definition descriptors :: "string \<Rightarrow> json \<Rightarrow> json list" where
  "descriptors key node_output = (case node_output of
       JDict kvs \<Rightarrow> (case map_of kvs key of Some (JList infos) \<Rightarrow> infos | _ \<Rightarrow> [])
     | _ \<Rightarrow> [])"

definition existing_paths :: "(string \<Rightarrow> fs_entry option) \<Rightarrow> json list \<Rightarrow> string list" where
  "existing_paths fsys infos =
     filter (\<lambda>p. fsys p \<noteq> None)
       (map (path_join OUTPUT_DIR) (List.map_filter descriptor_filename infos))"

definition collect_spec :: "(string \<Rightarrow> fs_entry option) \<Rightarrow> (string \<times> json) list \<Rightarrow> string list" where
  "collect_spec fsys nodes =
     concat (map (\<lambda>(node_id, node_output).
                    existing_paths fsys (descriptors ''images'' node_output)
                    @ existing_paths fsys (descriptors ''videos'' node_output)) nodes)"

text \<open>
  A well-formed manifest: every node's record is a dict, \<open>images\<close> and
  \<open>videos\<close> are lists where present, every descriptor is a dict, and a
  filename is a string.
\<close>

definition wf_descriptor :: "json \<Rightarrow> bool" where
  "wf_descriptor info = (case info of
       JDict kvs \<Rightarrow> (case map_of kvs ''filename'' of
                        None \<Rightarrow> True
                      | Some (JStr name) \<Rightarrow> True
                      | Some _ \<Rightarrow> False)
     | _ \<Rightarrow> False)"

definition wf_media :: "string \<Rightarrow> json \<Rightarrow> bool" where
  "wf_media key node_output = (case node_output of
       JDict kvs \<Rightarrow> (case map_of kvs key of
                        None \<Rightarrow> True
                      | Some (JList infos) \<Rightarrow> list_all wf_descriptor infos
                      | Some _ \<Rightarrow> False)
     | _ \<Rightarrow> False)"

definition wf_manifest :: "(string \<times> json) list \<Rightarrow> bool" where
  "wf_manifest nodes =
     list_all (\<lambda>(node_id, node_output).
                 wf_media ''images'' node_output \<and> wf_media ''videos'' node_output) nodes"

subsection \<open>The job graph\<close>

text \<open>
  What can be observed of a node: a field of the node, an entry of its
  \<open>inputs\<close> mapping, its kind, and the keys it has, in order.
\<close>

definition node_field :: "json \<Rightarrow> string \<Rightarrow> json option" where
  "node_field node f = (case node of JDict attrs \<Rightarrow> map_of attrs f | _ \<Rightarrow> None)"

definition node_input :: "json \<Rightarrow> string \<Rightarrow> json option" where
  "node_input node g = (case node_field node ''inputs'' of
       Some (JDict ins) \<Rightarrow> map_of ins g
     | _ \<Rightarrow> None)"

definition is_class :: "json \<Rightarrow> string \<Rightarrow> bool" where
  "is_class node c = (node_field node ''class_type'' = Some (JStr c))"

definition dict_keys :: "json \<Rightarrow> string list" where
  "dict_keys j = (case j of JDict kvs \<Rightarrow> map fst kvs | _ \<Rightarrow> [])"

text \<open>A node as the data model has it: a dict whose \<open>inputs\<close>, if any, is a dict.\<close>

definition wf_node :: "json \<Rightarrow> bool" where
  "wf_node node = (case node of
       JDict attrs \<Rightarrow> (case map_of attrs ''inputs'' of
                          None \<Rightarrow> True
                        | Some (JDict ins) \<Rightarrow> True
                        | Some _ \<Rightarrow> False)
     | _ \<Rightarrow> False)"

text \<open>The text a parameter set binds: \<open>positive_prompt\<close> if present, else \<open>prompt\<close>.\<close>

definition bound_text :: "(string \<times> json) list \<Rightarrow> json option" where
  "bound_text ps = (case map_of ps ''positive_prompt'' of
       Some v \<Rightarrow> Some v
     | None \<Rightarrow> map_of ps ''prompt'')"

text \<open>\<open>node'\<close> is \<open>node\<close> with the entry \<open>key\<close> of its \<open>inputs\<close> set to some value.\<close>

definition changed_input :: "string \<Rightarrow> json \<Rightarrow> json \<Rightarrow> bool" where
  "changed_input key node node' =
     (\<exists>attrs ins v. node = JDict attrs \<and> map_of attrs ''inputs'' = Some (JDict ins)
        \<and> node' = JDict (dict_set ''inputs'' (JDict (dict_set key v ins)) attrs))"

text \<open>
  The frame of the binder on one node: a node of another kind is the same
  node; the keys and every field but \<open>inputs\<close> are as before; and so is
  every input but the \<open>text\<close> of a text-encode node and the \<open>image\<close> of a
  load-image node.
\<close>

definition node_frame :: "json \<Rightarrow> json \<Rightarrow> bool" where
  "node_frame n n' =
     ((\<not> is_class n ''CLIPTextEncode'' \<and> \<not> is_class n ''LoadImage'' \<longrightarrow> n' = n)
      \<and> dict_keys n' = dict_keys n
      \<and> (\<forall>f. f \<noteq> ''inputs'' \<longrightarrow> node_field n' f = node_field n f)
      \<and> (\<forall>g. \<not> (is_class n ''CLIPTextEncode'' \<and> g = ''text'')
             \<and> \<not> (is_class n ''LoadImage'' \<and> g = ''image'')
             \<longrightarrow> node_input n' g = node_input n g))"

subsection \<open>The job's history\<close>

text \<open>
  The polls of \<open>wait_for_completion\<close> are made at \<open>poll_time env t0 0\<close>,
  \<open>poll_time env t0 1\<close>, ...: the first at the start, each next one after the
  answer to the one before (its latency) and one time-unit of sleep.
  \<open>after_polls\<close> is the state after \<open>k\<close> such rounds.
\<close>

definition poll_time :: "env \<Rightarrow> nat \<Rightarrow> nat \<Rightarrow> nat" where
  "poll_time env t0 k = ((\<lambda>t. t + latency env t + 1) ^^ k) t0"

definition after_polls :: "env \<Rightarrow> string \<Rightarrow> world \<Rightarrow> nat \<Rightarrow> world" where
  "after_polls env prompt_id w k =
     w\<lparr>clock := poll_time env (clock w) k,
       trace := trace w @ map (\<lambda>j. (poll_time env (clock w) j, GetHistory prompt_id)) [0..<k]\<rparr>"

text \<open>
  What the history answered at time \<open>t\<close> says of a handle: it is absent; or
  it is there with an \<open>outputs\<close> field, which is empty (falsy) or not.
\<close>

definition handle_absent :: "env \<Rightarrow> string \<Rightarrow> nat \<Rightarrow> bool" where
  "handle_absent env prompt_id t = (case http_get_history env prompt_id t of
       Inr (JDict history) \<Rightarrow> map_of history prompt_id = None
     | _ \<Rightarrow> False)"

definition outputs_of :: "env \<Rightarrow> string \<Rightarrow> nat \<Rightarrow> json option" where
  "outputs_of env prompt_id t = (case http_get_history env prompt_id t of
       Inr (JDict history) \<Rightarrow>
         (case map_of history prompt_id of
            Some (JDict entry) \<Rightarrow> map_of entry ''outputs''
          | _ \<Rightarrow> None)
     | _ \<Rightarrow> None)"

definition outputs_empty :: "env \<Rightarrow> string \<Rightarrow> nat \<Rightarrow> bool" where
  "outputs_empty env prompt_id t = (case outputs_of env prompt_id t of
       Some output \<Rightarrow> \<not> py_truthy output
     | None \<Rightarrow> False)"

definition outputs_ready :: "env \<Rightarrow> string \<Rightarrow> nat \<Rightarrow> json \<Rightarrow> bool" where
  "outputs_ready env prompt_id t output =
     (outputs_of env prompt_id t = Some output \<and> py_truthy output)"

subsection \<open>The delivery record\<close>

text \<open>
  The delivery record of a file \<open>p\<close> with content \<open>c\<close>, by the outcome of
  its upload: a remote-url record when the upload gave a URL; when it
  raised, an inline record with the base64 of the content for a file under
  10 MiB, and an error record with the size for a file of 10 MiB or more.
\<close>

definition tier_record :: "string \<Rightarrow> bytes \<Rightarrow> error + string \<Rightarrow> json" where
  "tier_record p c outcome = (case outcome of
       Inr url \<Rightarrow>
         JDict [(''type'', JStr (file_type_uploaded (splitext_ext p))),
                (''url'', JStr url),
                (''filename'', JStr (basename p))]
     | Inl e \<Rightarrow>
         if length c < 10 * 1024 * 1024
         then JDict [(''type'', JStr (file_type_inline (splitext_ext p))),
                     (''data'', JStr (b64encode c)),
                     (''format'', JStr (drop 1 (splitext_ext p)))]
         else JDict [(''type'', JStr ''error''),
                     (''error'', JStr (''File too large for base64 encoding: ''
                                        @ show_nat (length c) @ '' bytes''))])"

section \<open>A concrete worker, for evaluating the model\<close>

text \<open>
  A small environment: no storage settings, an inference server that accepts
  every graph under the handle \<open>abc\<close> and whose history shows the job
  finished with one image, \<open>cat.gif\<close>; an object store that refuses every
  upload. Variants of it are made by record update.
\<close>

definition demo_manifest :: json where
  "demo_manifest = JDict [(''9'', JDict [(''images'', JList [JDict [(''filename'', JStr ''cat.gif'')]])])]"

definition demo_env :: env where
  "demo_env = \<lparr>
     s3_endpoint_url = None, s3_bucket = None,
     s3_access_key_id = None, s3_secret_access_key = None,
     popen = (\<lambda>t. Inr 1),
     process_running = (\<lambda>pid t. True),
     process_stderr = (\<lambda>pid. []),
     latency = (\<lambda>t. 0),
     http_system_stats = (\<lambda>t. None),
     http_post_prompt = (\<lambda>workflow t. Inr (200, Inr ''abc'')),
     http_get_history = (\<lambda>prompt_id t. Inr (JDict [(''abc'', JDict [(''outputs'', demo_manifest)])])),
     http_get_url = (\<lambda>url t. Inr (200, ''img'')),
     s3_upload_file = (\<lambda>file_path bucket key t. Some UploadFailed),
     json_load = (\<lambda>content. if content = ''{}'' then Inr (JDict []) else Inl JSONDecodeError),
     dir_size = (\<lambda>p. 4096),
     py_repr = (\<lambda>j. ''?''),
     exc_text = (\<lambda>e. ''?'') \<rparr>"

definition demo_fs :: "string \<Rightarrow> fs_entry option" where
  "demo_fs = [''/comfyui/output/cat.gif'' \<mapsto> File ''hi'',
              ''/comfyui/output/clip.mp4'' \<mapsto> File ''video'',
              ''/comfyui/workflows/t2v.json'' \<mapsto> File ''{}'']"

definition demo_world :: world where
  "demo_world = \<lparr> comfyui_process = Some 1, comfyui_ready = True, clock = 100,
                   fs = demo_fs, trace = [] \<rparr>"

text \<open>
  A manifest of two nodes: the first lists \<open>videos\<close> before \<open>images\<close>, names
  \<open>cat.gif\<close> twice and a file that is not on disk; the second has a
  descriptor without a filename.
\<close>

definition demo_outputs :: "(string \<times> json) list" where
  "demo_outputs =
     [(''7'', JDict [(''videos'', JList [JDict [(''filename'', JStr ''clip.mp4'')]]),
                     (''images'', JList [JDict [(''filename'', JStr ''cat.gif'')],
                                         JDict [(''filename'', JStr ''gone.png'')],
                                         JDict [(''filename'', JStr ''cat.gif'')]])]),
      (''3'', JDict [(''images'', JList [JDict [(''subfolder'', JStr ''tmp'')]]),
                     (''videos'', JList [JDict [(''filename'', JStr ''cat.gif'')]])])]"

text \<open>A graph of three nodes, and a parameter set with both prompt keys.\<close>

definition demo_graph :: "(string \<times> json) list" where
  "demo_graph =
     [(''6'', JDict [(''class_type'', JStr ''CLIPTextEncode''),
                     (''inputs'', JDict [(''text'', JStr ''old''), (''clip'', JList [JStr ''4'', JInt 1])])]),
      (''3'', JDict [(''class_type'', JStr ''KSampler''),
                     (''inputs'', JDict [(''seed'', JInt 7), (''text'', JStr ''keep'')])]),
      (''10'', JDict [(''class_type'', JStr ''LoadImage''),
                      (''inputs'', JDict [(''image'', JStr ''example.png''), (''upload'', JStr ''image'')])])]"

definition demo_params :: "(string \<times> json) list" where
  "demo_params = [(''prompt'', JStr ''B''), (''positive_prompt'', JStr ''A'')]"

text \<open>
  Two inference servers: one whose history never shows the handle, and one
  that shows it with empty outputs until time 103 and finished from then on.
\<close>

definition never_env :: env where
  "never_env = demo_env\<lparr>http_get_history := (\<lambda>prompt_id t. Inr (JDict []))\<rparr>"

definition slow_env :: env where
  "slow_env = demo_env\<lparr>http_get_history := (\<lambda>prompt_id t.
       if t < 103 then Inr (JDict [(''abc'', JDict [(''outputs'', JDict [])])])
       else Inr (JDict [(''abc'', JDict [(''outputs'', demo_manifest)])]))\<rparr>"

text \<open>
  The worker as the module leaves it when loaded, before any start; and an
  inference server that answers \<open>/system_stats\<close> with 200 from time 4 on
  (the one of \<open>demo_env\<close> never answers).
\<close>

definition boot_world :: world where
  "boot_world = \<lparr> comfyui_process = None, comfyui_ready = False, clock = 0,
                   fs = demo_fs, trace = [] \<rparr>"

definition warm_env :: env where
  "warm_env = demo_env\<lparr>http_system_stats := (\<lambda>t. if t < 4 then None else Some 200)\<rparr>"

text \<open>The worker after a start against that server: two attempts fail, the third succeeds.\<close>

definition warm_world :: world where
  "warm_world = \<lparr> comfyui_process = Some 1, comfyui_ready = True, clock = 4, fs = demo_fs,
                   trace = [(0, Spawn), (0, GetSystemStats), (0, PollProcess 1),
                            (2, GetSystemStats), (2, PollProcess 1), (4, GetSystemStats)] \<rparr>"

text \<open>
  An object store with all four settings, which takes every file but
  \<open>cat.gif\<close>; the same with the secret key unset; a file of exactly 10 MiB;
  a server whose job finished with nothing to show; and three events.
\<close>

definition s3_env :: env where
  "s3_env = demo_env\<lparr>
     s3_endpoint_url := Some ''https://s3.example/'', s3_bucket := Some ''media'',
     s3_access_key_id := Some ''AK'', s3_secret_access_key := Some ''SK'',
     s3_upload_file := (\<lambda>file_path bucket key t.
        if file_path = ''/comfyui/output/cat.gif'' then Some UploadFailed else None)\<rparr>"

definition nosecret_env :: env where
  "nosecret_env = s3_env\<lparr>s3_secret_access_key := None\<rparr>"

definition big_content :: bytes where
  "big_content = replicate MAX_INLINE (CHR ''x'')"

definition big_world :: world where
  "big_world = demo_world\<lparr>fs := demo_fs(''/comfyui/output/big.mp4'' \<mapsto> File big_content)\<rparr>"

definition gif_event :: json where
  "gif_event = JDict [(''input'', JDict [(''workflow_json'',
                 JDict [(''1'', JDict [(''class_type'', JStr ''KSampler'')])])])]"

definition t2v_event :: json where
  "t2v_event = JDict [(''input'', JDict [(''workflow_name'', JStr ''t2v''),
                                         (''params'', JDict [(''prompt'', JStr ''a cat'')])])]"

definition empty_env :: env where
  "empty_env = demo_env\<lparr>http_get_history := (\<lambda>prompt_id t.
       Inr (JDict [(''abc'', JDict [(''outputs'', JDict [(''9'', JDict [])])])]))\<rparr>"

definition vace_event :: json where
  "vace_event = JDict [(''input'', JDict [(''workflow_name'', JStr ''vace'')])]"

section \<open>Verification\<close>

lemma and_then_Inl [simp]: "and_then (Inl e) f = Inl e"
  by (simp add: and_then_def)

lemma and_then_Inr [simp]: "and_then (Inr x) f = f x"
  by (simp add: and_then_def)

text \<open>The definitions to unfold when the model is evaluated on a concrete input.\<close>

lemmas py_defs = py_get_def py_contains_def py_getitem_def py_setitem_def py_iter_def py_items_def
  py_truthy_def py_path_join_def py_str_def

lemmas path_defs = basename_def dirname_def path_join_def splitext_ext_def OUTPUT_DIR_def
  WORKFLOWS_DIR_def

lemmas handler_defs = handler_def handler_try_def ensure_started_def run_job_def
  run_and_deliver_def queue_workflow_def wait_for_completion_def poll_history_def
  history_outputs_def raise_for_status_def get_output_files_def collect_list_def
  update_workflow_with_inputs_def update_text_def update_image_def load_workflow_def
  registry_lookup_def AVAILABLE_WORKFLOWS_def deliver_one_def upload_to_s3_def s3_configured_def
  setting_present_def fallback_record_def getsize_def read_file_def s3_key_of_def
  request_def log_call_def sleep_def DEFAULT_TIMEOUT_def

lemmas record_defs = url_record_def inline_record_def error_record_def completed_def
  failed_early_def failed_exception_def file_type_uploaded_def file_type_inline_def
  VIDEO_EXTS_def IMAGE_EXTS_def b64_char_def b64_alphabet_def

lemmas demo_defs = demo_env_def demo_world_def demo_fs_def demo_manifest_def

subsection \<open>Workflow loader\<close>

lemma registry_keys_listed:
  "join_with '', '' (map fst AVAILABLE_WORKFLOWS) = ''t2v, i2v, fun_camera, vace''"
  by (simp add: AVAILABLE_WORKFLOWS_def)

text \<open>
  Claim C8. For an identifier of the registry whose definition file is a file
  on disk, \<open>load_workflow\<close> returns what \<open>json.load\<close> makes of the file's
  content. For an identifier outside the registry it raises \<open>ValueError\<close>, and
  the message lists the keys of the registry, all of them and nothing else:
  \<open>t2v, i2v, fun_camera, vace\<close>. For an identifier of the registry whose
  definition file does not exist it raises \<open>FileNotFoundError\<close>.
\<close>

theorem load_workflow_resolves:
  "(map_of AVAILABLE_WORKFLOWS ident = Some file
      \<and> fsys (path_join WORKFLOWS_DIR file) = Some (File content)
      \<longrightarrow> load_workflow env fsys (JStr ident) = json_load env content)
   \<and> (map_of AVAILABLE_WORKFLOWS ident = None
      \<longrightarrow> load_workflow env fsys (JStr ident)
            = Inl (ValueError (''Unknown workflow_type: '' @ ident @ ''. Available: ''
                     @ join_with '', '' (map fst AVAILABLE_WORKFLOWS)))
          \<and> join_with '', '' (map fst AVAILABLE_WORKFLOWS) = ''t2v, i2v, fun_camera, vace'')
   \<and> (map_of AVAILABLE_WORKFLOWS ident = Some file
      \<and> fsys (path_join WORKFLOWS_DIR file) = None
      \<longrightarrow> load_workflow env fsys (JStr ident)
            = Inl (FileNotFoundError (''Workflow file not found: '' @ path_join WORKFLOWS_DIR file)))"
  by (simp add: load_workflow_def registry_lookup_def py_str_def registry_keys_listed)

theorem load_workflow_resolves_witness:
  "load_workflow demo_env demo_fs (JStr ''t2v'') = Inr (JDict [])
   \<and> load_workflow demo_env demo_fs (JStr ''t2'')
       = Inl (ValueError ''Unknown workflow_type: t2. Available: t2v, i2v, fun_camera, vace'')
   \<and> load_workflow demo_env demo_fs (JStr ''vace'')
       = Inl (FileNotFoundError ''Workflow file not found: /comfyui/workflows/vace.json'')"
proof -
  have member: "map_of AVAILABLE_WORKFLOWS ''t2v'' = Some ''t2v.json''"
    and outside: "map_of AVAILABLE_WORKFLOWS ''t2'' = None"
    and member': "map_of AVAILABLE_WORKFLOWS ''vace'' = Some ''vace.json''"
    by (simp_all add: AVAILABLE_WORKFLOWS_def)
  have stored: "demo_fs (path_join WORKFLOWS_DIR ''t2v.json'') = Some (File ''{}'')"
    and missing: "demo_fs (path_join WORKFLOWS_DIR ''vace.json'') = None"
    by (simp_all add: demo_fs_def path_join_def WORKFLOWS_DIR_def)
  have parsed: "json_load demo_env ''{}'' = Inr (JDict [])"
    by (simp add: demo_env_def)
  have path: "path_join WORKFLOWS_DIR ''vace.json'' = ''/comfyui/workflows/vace.json''"
    by (simp add: path_join_def WORKFLOWS_DIR_def)
  from load_workflow_resolves [of "''t2v''" "''t2v.json''" demo_fs "''{}''" demo_env] member stored parsed
  have a: "load_workflow demo_env demo_fs (JStr ''t2v'') = Inr (JDict [])"
    by simp
  from load_workflow_resolves [of "''t2''" _ demo_fs _ demo_env] outside
  have b: "load_workflow demo_env demo_fs (JStr ''t2'')
       = Inl (ValueError ''Unknown workflow_type: t2. Available: t2v, i2v, fun_camera, vace'')"
    by simp
  from load_workflow_resolves [of "''vace''" "''vace.json''" demo_fs _ demo_env] member' missing path
  have c: "load_workflow demo_env demo_fs (JStr ''vace'')
       = Inl (FileNotFoundError ''Workflow file not found: /comfyui/workflows/vace.json'')"
    by simp
  from a b c show ?thesis by simp
qed

subsection \<open>Output collector\<close>

lemma collect_infos_spec:
  "list_all wf_descriptor infos \<Longrightarrow>
   collect_infos fsys infos files = Inr (files @ existing_paths fsys infos)"
proof (induction infos arbitrary: files)
  case Nil
  then show ?case by (simp add: existing_paths_def)
next
  case (Cons info infos)
  from Cons.prems have wf: "wf_descriptor info" and rest: "list_all wf_descriptor infos" by simp_all
  from wf obtain kvs where info: "info = JDict kvs"
    by (cases info) (simp_all add: wf_descriptor_def)
  show ?case
  proof (cases "map_of kvs ''filename''")
    case None
    with info Cons.IH [OF rest] show ?thesis
      by (simp add: py_contains_def existing_paths_def descriptor_filename_def)
  next
    case (Some v)
    with wf info obtain name where v: "v = JStr name"
      by (cases v) (simp_all add: wf_descriptor_def)
    with Some info Cons.IH [OF rest] show ?thesis
      by (simp add: py_contains_def py_getitem_def py_path_join_def existing_paths_def
            descriptor_filename_def)
  qed
qed

lemma collect_list_spec:
  "wf_media key node_output \<Longrightarrow>
   collect_list fsys key node_output files
     = Inr (files @ existing_paths fsys (descriptors key node_output))"
  by (auto simp: wf_media_def collect_list_def py_contains_def py_getitem_def py_iter_def
        descriptors_def collect_infos_spec existing_paths_def
      split: json.splits option.splits)

lemma collect_nodes_spec:
  "wf_manifest nodes \<Longrightarrow> collect_nodes fsys nodes files = Inr (files @ collect_spec fsys nodes)"
  by (induction nodes arbitrary: files)
     (auto simp: wf_manifest_def collect_spec_def collect_list_spec)

text \<open>
  Claim C9. On a well-formed manifest \<open>get_output_files\<close> returns the list the
  specification describes: for every node in iteration order, the existing
  derived paths of its image descriptors and then of its video descriptors,
  each in list order. The list is a filter of a map over the descriptors, so
  a descriptor gives one path when its derived path exists and none when it
  does not, and a filename listed twice is returned twice.
\<close>

theorem get_output_files_collects:
  "wf_manifest nodes \<Longrightarrow> get_output_files fsys (JDict nodes) = Inr (collect_spec fsys nodes)"
  by (simp add: get_output_files_def py_items_def collect_nodes_spec)

theorem get_output_files_collects_witness:
  "get_output_files demo_fs (JDict demo_outputs)
     = Inr [''/comfyui/output/cat.gif'', ''/comfyui/output/cat.gif'',
            ''/comfyui/output/clip.mp4'', ''/comfyui/output/cat.gif'']"
proof -
  have wf: "wf_manifest demo_outputs"
    by (simp add: wf_manifest_def wf_media_def wf_descriptor_def demo_outputs_def)
  have "collect_spec demo_fs demo_outputs
          = [''/comfyui/output/cat.gif'', ''/comfyui/output/cat.gif'',
             ''/comfyui/output/clip.mp4'', ''/comfyui/output/cat.gif'']"
    by (simp add: collect_spec_def existing_paths_def descriptors_def descriptor_filename_def
          demo_outputs_def demo_fs_def path_join_def OUTPUT_DIR_def)
  with get_output_files_collects [OF wf, of demo_fs] show ?thesis by simp
qed

subsection \<open>Parameter binder\<close>

lemma map_of_dict_set: "map_of (dict_set k v kvs) k' = (if k' = k then Some v else map_of kvs k')"
  by (induction kvs) auto

lemma keys_dict_set: "map_of kvs k \<noteq> None \<Longrightarrow> map fst (dict_set k v kvs) = map fst kvs"
  by (induction kvs) auto

lemma set_input_result:
  "set_input node key v = Inr node' \<Longrightarrow>
   \<exists>attrs ins. node = JDict attrs \<and> map_of attrs ''inputs'' = Some (JDict ins)
      \<and> node' = JDict (dict_set ''inputs'' (JDict (dict_set key v ins)) attrs)"
  by (auto simp: set_input_def py_getitem_def py_setitem_def and_then_def
      split: json.splits option.splits sum.splits)

lemma set_input_dict:
  "map_of attrs ''inputs'' = Some (JDict ins) \<Longrightarrow>
   set_input (JDict attrs) key v = Inr (JDict (dict_set ''inputs'' (JDict (dict_set key v ins)) attrs))"
  by (simp add: set_input_def py_getitem_def py_setitem_def)

lemma update_text_result:
  "update_text node params = Inr node' \<Longrightarrow>
   node' = node \<or> (is_class node ''CLIPTextEncode'' \<and> changed_input ''text'' node node')"
proof (cases node)
  case (JDict attrs)
  assume r: "update_text node params = Inr node'"
  show ?thesis
  proof (cases "map_of attrs ''class_type'' = Some (JStr ''CLIPTextEncode'')")
    case False
    with r JDict show ?thesis
      by (auto simp: update_text_def py_get_def split: option.splits)
  next
    case True
    then have cls: "is_class node ''CLIPTextEncode''"
      by (simp add: JDict is_class_def node_field_def)
    from r True JDict have
      "node' = node \<or> (\<exists>v. set_input node ''text'' v = Inr node')"
      by (auto simp: update_text_def py_get_def and_then_def split: option.splits sum.splits if_splits)
    then show ?thesis
    proof
      assume "node' = node"
      then show ?thesis by simp
    next
      assume "\<exists>v. set_input node ''text'' v = Inr node'"
      then obtain v where "set_input node ''text'' v = Inr node'" by blast
      from set_input_result [OF this] have "changed_input ''text'' node node'"
        unfolding changed_input_def by blast
      with cls show ?thesis by simp
    qed
  qed
qed (auto simp: update_text_def py_get_def)

lemma update_image_result:
  "update_image env node_id node params w = (Inr node', w') \<Longrightarrow>
   node' = node \<or> (is_class node ''LoadImage'' \<and> changed_input ''image'' node node')"
proof (cases node)
  case (JDict attrs)
  assume r: "update_image env node_id node params w = (Inr node', w')"
  show ?thesis
  proof (cases "map_of attrs ''class_type'' = Some (JStr ''LoadImage'')")
    case False
    with r JDict show ?thesis
      by (auto simp: update_image_def py_get_def split: option.splits)
  next
    case True
    then have cls: "is_class node ''LoadImage''"
      by (simp add: JDict is_class_def node_field_def)
    from r True JDict have
      "node' = node \<or> (\<exists>v. set_input node ''image'' v = Inr node')"
      by (auto simp: update_image_def py_get_def split: option.splits sum.splits if_splits prod.splits)
    then show ?thesis
    proof
      assume "node' = node"
      then show ?thesis by simp
    next
      assume "\<exists>v. set_input node ''image'' v = Inr node'"
      then obtain v where "set_input node ''image'' v = Inr node'" by blast
      from set_input_result [OF this] have "changed_input ''image'' node node'"
        unfolding changed_input_def by blast
      with cls show ?thesis by simp
    qed
  qed
qed (auto simp: update_image_def py_get_def)


lemma changed_input_keys: "changed_input key n n' \<Longrightarrow> dict_keys n' = dict_keys n"
  by (auto simp: changed_input_def dict_keys_def keys_dict_set)

lemma changed_input_field:
  "changed_input key n n' \<Longrightarrow> f \<noteq> ''inputs'' \<Longrightarrow> node_field n' f = node_field n f"
  by (auto simp: changed_input_def node_field_def map_of_dict_set)

lemma changed_input_other:
  "changed_input key n n' \<Longrightarrow> g \<noteq> key \<Longrightarrow> node_input n' g = node_input n g"
  by (auto simp: changed_input_def node_input_def node_field_def map_of_dict_set)

lemma changed_input_class: "changed_input key n n' \<Longrightarrow> is_class n' c = is_class n c"
  by (simp add: is_class_def changed_input_field)

lemma class_unique: "is_class n c \<Longrightarrow> is_class n c' \<Longrightarrow> c' = c"
  by (simp add: is_class_def)

lemma node_frame_refl: "node_frame n n"
  by (simp add: node_frame_def)

lemma node_frame_changed:
  assumes "is_class n c" and "changed_input key n n'"
    and "(c = ''CLIPTextEncode'' \<and> key = ''text'') \<or> (c = ''LoadImage'' \<and> key = ''image'')"
  shows "node_frame n n'"
  unfolding node_frame_def
proof (intro conjI allI impI)
  from assms(1,3) show "n' = n" if "\<not> is_class n ''CLIPTextEncode'' \<and> \<not> is_class n ''LoadImage''"
    using that by auto
  from assms(2) show "dict_keys n' = dict_keys n"
    by (rule changed_input_keys)
  from assms(2) show "node_field n' f = node_field n f" if "f \<noteq> ''inputs''" for f
    using that by (rule changed_input_field)
  show "node_input n' g = node_input n g"
    if "\<not> (is_class n ''CLIPTextEncode'' \<and> g = ''text'') \<and> \<not> (is_class n ''LoadImage'' \<and> g = ''image'')"
    for g
  proof -
    from that assms(1,3) have "g \<noteq> key" by auto
    with assms(2) show ?thesis by (rule changed_input_other)
  qed
qed

lemma update_node_frame:
  assumes t: "update_text n params = Inr n1"
    and i: "update_image env node_id n1 params w = (Inr n2, w')"
  shows "node_frame n n2"
proof -
  from update_text_result [OF t]
  consider "n1 = n" | "is_class n ''CLIPTextEncode''" "changed_input ''text'' n n1" by blast
  then show ?thesis
  proof cases
    case 1
    from update_image_result [OF i]
    consider "n2 = n1" | "is_class n1 ''LoadImage''" "changed_input ''image'' n1 n2" by blast
    then show ?thesis
    proof cases
      case 1
      with \<open>n1 = n\<close> show ?thesis by (simp add: node_frame_refl)
    next
      case 2
      with \<open>n1 = n\<close> show ?thesis by (auto intro: node_frame_changed)
    qed
  next
    case 2
    from 2(2) have cls: "is_class n1 ''CLIPTextEncode''"
      using 2(1) by (simp add: changed_input_class)
    have "n2 = n1"
    proof (rule ccontr)
      assume "n2 \<noteq> n1"
      with update_image_result [OF i] have "is_class n1 ''LoadImage''" by blast
      with cls show False by (auto dest: class_unique)
    qed
    with 2 show ?thesis by (auto intro: node_frame_changed)
  qed
qed

lemma update_nodes_frame:
  "update_nodes env params nodes w = (Inr nodes', w') \<Longrightarrow>
   map fst nodes' = map fst nodes \<and> list_all2 node_frame (map snd nodes) (map snd nodes')"
proof (induction nodes arbitrary: nodes' w)
  case Nil
  then show ?case by simp
next
  case (Cons kn nodes)
  obtain k n where kn: "kn = (k, n)" by (cases kn)
  from Cons.prems kn obtain n1 n2 w1 rest' where
    t: "update_text n params = Inr n1"
    and i: "update_image env k n1 params w = (Inr n2, w1)"
    and r: "update_nodes env params nodes w1 = (Inr rest', w')"
    and res: "nodes' = (k, n2) # rest'"
    by (auto split: sum.splits prod.splits)
  from Cons.IH [OF r] update_node_frame [OF t i] kn res show ?case by simp
qed


lemma node_input_SomeD:
  "node_input n g = Some v \<Longrightarrow>
   \<exists>attrs ins. n = JDict attrs \<and> map_of attrs ''inputs'' = Some (JDict ins) \<and> map_of ins g = Some v"
  by (auto simp: node_input_def node_field_def split: json.splits option.splits)

lemma update_text_dict:
  assumes "is_class n ''CLIPTextEncode''" and "node_input n ''text'' = Some old"
  shows "\<exists>n1. update_text n (JDict ps) = Inr n1
           \<and> node_input n1 ''text'' = (case bound_text ps of Some v \<Rightarrow> Some v | None \<Rightarrow> Some old)
           \<and> is_class n1 ''CLIPTextEncode''"
proof -
  from node_input_SomeD [OF assms(2)] obtain attrs ins where
    n: "n = JDict attrs" and ins: "map_of attrs ''inputs'' = Some (JDict ins)"
    and old: "map_of ins ''text'' = Some old" by blast
  from assms(1) n have cls: "map_of attrs ''class_type'' = Some (JStr ''CLIPTextEncode'')"
    by (simp add: is_class_def node_field_def)
  show ?thesis
  proof (cases "bound_text ps")
    case None
    with n ins old cls assms show ?thesis
      by (simp add: update_text_def py_get_def py_contains_def bound_text_def split: option.splits)
  next
    case (Some v)
    with n ins old cls have
      "update_text n (JDict ps) = Inr (JDict (dict_set ''inputs'' (JDict (dict_set ''text'' v ins)) attrs))"
      by (auto simp: update_text_def py_get_def py_contains_def py_getitem_def bound_text_def set_input_dict
          split: option.splits)
    with Some cls show ?thesis
      by (simp add: node_input_def node_field_def is_class_def map_of_dict_set)
  qed
qed

lemma update_image_not_load:
  assumes "is_class n c" and "c \<noteq> ''LoadImage''"
  shows "update_image env node_id n params w = (Inr n, w)"
proof -
  from assms obtain attrs where "n = JDict attrs" "map_of attrs ''class_type'' = Some (JStr c)"
    by (auto simp: is_class_def node_field_def split: json.splits)
  with assms(2) show ?thesis
    by (simp add: update_image_def py_get_def)
qed

lemma update_nodes_text:
  assumes "update_nodes env (JDict ps) nodes w = (Inr nodes', w')"
    and "i < length nodes"
    and "is_class (snd (nodes ! i)) ''CLIPTextEncode''"
    and "node_input (snd (nodes ! i)) ''text'' = Some old"
  shows "node_input (snd (nodes' ! i)) ''text''
           = (case bound_text ps of Some v \<Rightarrow> Some v | None \<Rightarrow> Some old)"
  using assms
proof (induction nodes arbitrary: nodes' w i)
  case Nil
  then show ?case by simp
next
  case (Cons kn nodes)
  obtain k n where kn: "kn = (k, n)" by (cases kn)
  from Cons.prems(1) kn obtain n1 n2 w1 rest' where
    t: "update_text n (JDict ps) = Inr n1"
    and im: "update_image env k n1 (JDict ps) w = (Inr n2, w1)"
    and r: "update_nodes env (JDict ps) nodes w1 = (Inr rest', w')"
    and res: "nodes' = (k, n2) # rest'"
    by (auto split: sum.splits prod.splits)
  show ?case
  proof (cases i)
    case 0
    with Cons.prems kn have c: "is_class n ''CLIPTextEncode''" and o: "node_input n ''text'' = Some old"
      by simp_all
    from update_text_dict [OF c o, of ps] t have
      v: "node_input n1 ''text'' = (case bound_text ps of Some v \<Rightarrow> Some v | None \<Rightarrow> Some old)"
      and c1: "is_class n1 ''CLIPTextEncode''" by auto
    from update_image_not_load [OF c1, of env k "JDict ps" w] im have "n2 = n1" by simp
    with v 0 res show ?thesis by simp
  next
    case (Suc j)
    with Cons.prems Cons.IH [OF r, of j] res show ?thesis by simp
  qed
qed

lemma update_text_wf:
  assumes "wf_node n"
  shows "\<exists>n1. update_text n (JDict ps) = Inr n1 \<and> wf_node n1"
proof -
  from assms obtain attrs where n: "n = JDict attrs"
    by (cases n) (simp_all add: wf_node_def)
  show ?thesis
  proof (cases "map_of attrs ''inputs''")
    case None
    with n assms show ?thesis
      by (simp add: update_text_def py_get_def py_contains_def split: option.splits)
  next
    case (Some inputs)
    with n assms obtain ins where ins: "inputs = JDict ins"
      by (cases inputs) (simp_all add: wf_node_def)
    have wf': "wf_node (JDict (dict_set ''inputs'' (JDict (dict_set ''text'' v ins)) attrs))" for v
      by (simp add: wf_node_def map_of_dict_set)
    from n Some ins assms wf' show ?thesis
      by (simp add: update_text_def py_get_def py_contains_def py_getitem_def set_input_dict
            split: option.splits)
  qed
qed

lemma update_image_no_url:
  assumes "wf_node n" and "map_of ps ''image_url'' = None"
  shows "update_image env node_id n (JDict ps) w = (Inr n, w)"
proof -
  from assms(1) obtain attrs where n: "n = JDict attrs"
    by (cases n) (simp_all add: wf_node_def)
  with assms(2) show ?thesis
    by (simp add: update_image_def py_get_def py_contains_def split: option.splits)
qed

lemma py_contains_params:
  "map_of ps k = map_of ps' k \<Longrightarrow> py_contains k (JDict ps) = py_contains k (JDict ps')"
  by (simp add: py_contains_def)

lemma py_getitem_params:
  "map_of ps k = map_of ps' k \<Longrightarrow> py_getitem (JDict ps) k = py_getitem (JDict ps') k"
  by (simp add: py_getitem_def)

lemma update_text_params:
  assumes "map_of ps ''positive_prompt'' = map_of ps' ''positive_prompt''"
    and "map_of ps ''prompt'' = map_of ps' ''prompt''"
  shows "update_text n (JDict ps) = update_text n (JDict ps')"
  unfolding update_text_def
    py_contains_params [OF assms(1)] py_getitem_params [OF assms(1)]
    py_contains_params [OF assms(2)] py_getitem_params [OF assms(2)] ..

lemma update_image_params:
  assumes "map_of ps ''image_url'' = map_of ps' ''image_url''"
  shows "update_image env node_id n (JDict ps) w = update_image env node_id n (JDict ps') w"
  unfolding update_image_def
    py_contains_params [OF assms] py_getitem_params [OF assms] ..

lemma update_nodes_returns:
  "list_all (\<lambda>kn. wf_node (snd kn)) nodes \<Longrightarrow> map_of ps ''image_url'' = None \<Longrightarrow>
   \<exists>nodes'. update_nodes env (JDict ps) nodes w = (Inr nodes', w)"
proof (induction nodes)
  case Nil
  then show ?case by simp
next
  case (Cons kn nodes)
  obtain k n where kn: "kn = (k, n)" by (cases kn)
  from Cons.prems kn have wf: "wf_node n" by simp
  from update_text_wf [OF wf, of ps] obtain n1 where
    t: "update_text n (JDict ps) = Inr n1" and wf1: "wf_node n1" by blast
  from update_image_no_url [OF wf1 Cons.prems(2)] have
    im: "update_image env k n1 (JDict ps) w = (Inr n1, w)" .
  from Cons.IH Cons.prems obtain rest' where
    "update_nodes env (JDict ps) nodes w = (Inr rest', w)" by auto
  with kn t im show ?case by simp
qed


lemma update_nodes_params:
  assumes "map_of ps ''positive_prompt'' = map_of ps' ''positive_prompt''"
    and "map_of ps ''prompt'' = map_of ps' ''prompt''"
    and "map_of ps ''image_url'' = map_of ps' ''image_url''"
  shows "update_nodes env (JDict ps) nodes w = update_nodes env (JDict ps') nodes w"
proof (induction nodes arbitrary: w)
  case Nil
  show ?case by simp
next
  case (Cons kn nodes)
  obtain k n where kn: "kn = (k, n)" by (cases kn)
  show ?case
    unfolding kn update_nodes.simps
      update_text_params [OF assms(1,2)] update_image_params [OF assms(3)] Cons.IH ..
qed

text \<open>
  Claim C7. For a graph and a parameter set (both dicts): whenever the binder
  returns, the graph it returns has the same nodes under the same
  identifiers, and every text-encode node that carried a text input now has
  as its text the value of \<open>positive_prompt\<close> when the parameter set has that
  key, else the value of \<open>prompt\<close> when it has that one, else the text it had;
  so \<open>positive_prompt\<close> wins when both are there. And the binder does return,
  leaving the worker's state as it was, when every node is well formed and
  the parameter set has no \<open>image_url\<close> (the only step that can fail on a
  well-formed graph is the download for a load-image node).
\<close>

theorem binder_sets_text:
  "(list_all (\<lambda>kn. wf_node (snd kn)) nodes \<and> map_of ps ''image_url'' = None
      \<longrightarrow> (\<exists>nodes'. update_workflow_with_inputs env (JDict nodes) (JDict ps) w
                        = (Inr (JDict nodes'), w)))
   \<and> (update_workflow_with_inputs env (JDict nodes) (JDict ps) w = (Inr workflow', w')
      \<longrightarrow> (\<exists>nodes'. workflow' = JDict nodes' \<and> map fst nodes' = map fst nodes
             \<and> (\<forall>i old. i < length nodes
                    \<and> is_class (snd (nodes ! i)) ''CLIPTextEncode''
                    \<and> node_input (snd (nodes ! i)) ''text'' = Some old
                   \<longrightarrow> node_input (snd (nodes' ! i)) ''text''
                        = (case map_of ps ''positive_prompt'' of
                             Some v \<Rightarrow> Some v
                           | None \<Rightarrow> (case map_of ps ''prompt'' of
                                        Some v \<Rightarrow> Some v
                                      | None \<Rightarrow> Some old)))))"
proof (intro conjI impI)
  assume "list_all (\<lambda>kn. wf_node (snd kn)) nodes \<and> map_of ps ''image_url'' = None"
  then obtain nodes' where "update_nodes env (JDict ps) nodes w = (Inr nodes', w)"
    using update_nodes_returns by blast
  then show "\<exists>nodes'. update_workflow_with_inputs env (JDict nodes) (JDict ps) w
                        = (Inr (JDict nodes'), w)"
    by (simp add: update_workflow_with_inputs_def py_items_def)
next
  assume "update_workflow_with_inputs env (JDict nodes) (JDict ps) w = (Inr workflow', w')"
  then obtain nodes' where r: "update_nodes env (JDict ps) nodes w = (Inr nodes', w')"
    and wf': "workflow' = JDict nodes'"
    by (auto simp: update_workflow_with_inputs_def py_items_def split: sum.splits prod.splits)
  from update_nodes_frame [OF r] have keys: "map fst nodes' = map fst nodes" by simp
  have "node_input (snd (nodes' ! i)) ''text''
          = (case map_of ps ''positive_prompt'' of
               Some v \<Rightarrow> Some v
             | None \<Rightarrow> (case map_of ps ''prompt'' of Some v \<Rightarrow> Some v | None \<Rightarrow> Some old))"
    if "i < length nodes" "is_class (snd (nodes ! i)) ''CLIPTextEncode''"
       "node_input (snd (nodes ! i)) ''text'' = Some old" for i old
    using update_nodes_text [OF r that]
    by (simp add: bound_text_def split: option.splits)
  with wf' keys show "\<exists>nodes'. workflow' = JDict nodes' \<and> map fst nodes' = map fst nodes
             \<and> (\<forall>i old. i < length nodes
                    \<and> is_class (snd (nodes ! i)) ''CLIPTextEncode''
                    \<and> node_input (snd (nodes ! i)) ''text'' = Some old
                   \<longrightarrow> node_input (snd (nodes' ! i)) ''text''
                        = (case map_of ps ''positive_prompt'' of
                             Some v \<Rightarrow> Some v
                           | None \<Rightarrow> (case map_of ps ''prompt'' of
                                        Some v \<Rightarrow> Some v
                                      | None \<Rightarrow> Some old)))"
    by blast
qed

theorem binder_sets_text_witness:
  "\<exists>nodes'. update_workflow_with_inputs demo_env (JDict demo_graph) (JDict demo_params) demo_world
                = (Inr (JDict nodes'), demo_world)
            \<and> node_input (snd (nodes' ! 0)) ''text'' = Some (JStr ''A'')"
proof -
  have wf: "list_all (\<lambda>kn. wf_node (snd kn)) demo_graph \<and> map_of demo_params ''image_url'' = None"
    by (simp add: demo_graph_def demo_params_def wf_node_def)
  have node: "0 < length demo_graph \<and> is_class (snd (demo_graph ! 0)) ''CLIPTextEncode''
      \<and> node_input (snd (demo_graph ! 0)) ''text'' = Some (JStr ''old'')"
    by (simp add: demo_graph_def is_class_def node_field_def node_input_def)
  have both: "map_of demo_params ''positive_prompt'' = Some (JStr ''A'')"
    "map_of demo_params ''prompt'' = Some (JStr ''B'')"
    by (simp_all add: demo_params_def)
  from binder_sets_text [of demo_graph demo_params demo_env demo_world] wf
  obtain nodes' where
    r: "update_workflow_with_inputs demo_env (JDict demo_graph) (JDict demo_params) demo_world
          = (Inr (JDict nodes'), demo_world)"
    by blast
  from binder_sets_text [of demo_graph demo_params demo_env demo_world "JDict nodes'" demo_world] r
  have "\<forall>i old. i < length demo_graph
                    \<and> is_class (snd (demo_graph ! i)) ''CLIPTextEncode''
                    \<and> node_input (snd (demo_graph ! i)) ''text'' = Some old
                   \<longrightarrow> node_input (snd (nodes' ! i)) ''text''
                        = (case map_of demo_params ''positive_prompt'' of
                             Some v \<Rightarrow> Some v
                           | None \<Rightarrow> (case map_of demo_params ''prompt'' of
                                        Some v \<Rightarrow> Some v
                                      | None \<Rightarrow> Some old))"
    by blast
  with node both have "node_input (snd (nodes' ! 0)) ''text'' = Some (JStr ''A'')"
    by (metis option.simps(5))
  with r show ?thesis by blast
qed

text \<open>
  Claim C10. Whenever the binder returns, for any parameter value at all, the
  graph it returns has the same node identifiers in the same order and every
  node satisfies \<open>node_frame\<close>: a node that is neither a text-encode nor a
  load-image node is unchanged, and of the other nodes only the \<open>text\<close>
  input (text-encode) or the \<open>image\<close> input (load-image) can differ. And two
  parameter sets that differ only in \<open>negative_prompt\<close>, \<open>seed\<close>, \<open>steps\<close> and
  \<open>cfg\<close> (present or not, with any values) give the same outcome, for the
  graph and for the worker's state.
\<close>

theorem binder_frame:
  "(update_workflow_with_inputs env workflow params w = (Inr workflow', w')
      \<longrightarrow> (\<exists>nodes nodes'. workflow = JDict nodes \<and> workflow' = JDict nodes'
             \<and> map fst nodes' = map fst nodes
             \<and> (\<forall>i. i < length nodes \<longrightarrow> node_frame (snd (nodes ! i)) (snd (nodes' ! i)))))
   \<and> ((\<forall>k. k \<notin> set [''negative_prompt'', ''seed'', ''steps'', ''cfg'']
            \<longrightarrow> map_of ps k = map_of ps' k)
      \<longrightarrow> update_workflow_with_inputs env workflow (JDict ps) w
          = update_workflow_with_inputs env workflow (JDict ps') w)"
proof (intro conjI impI)
  assume "update_workflow_with_inputs env workflow params w = (Inr workflow', w')"
  then obtain nodes nodes' where wf: "workflow = JDict nodes" "workflow' = JDict nodes'"
    and r: "update_nodes env params nodes w = (Inr nodes', w')"
    by (auto simp: update_workflow_with_inputs_def py_items_def
        split: json.splits sum.splits prod.splits)
  from update_nodes_frame [OF r] have keys: "map fst nodes' = map fst nodes"
    and all2: "list_all2 node_frame (map snd nodes) (map snd nodes')" by simp_all
  from keys have len: "length nodes' = length nodes"
    by (metis length_map)
  have "node_frame (snd (nodes ! i)) (snd (nodes' ! i))" if "i < length nodes" for i
    using all2 that len by (simp add: list_all2_conv_all_nth)
  with wf keys
  show "\<exists>nodes nodes'. workflow = JDict nodes \<and> workflow' = JDict nodes'
             \<and> map fst nodes' = map fst nodes
             \<and> (\<forall>i. i < length nodes \<longrightarrow> node_frame (snd (nodes ! i)) (snd (nodes' ! i)))"
    by blast
next
  assume same: "\<forall>k. k \<notin> set [''negative_prompt'', ''seed'', ''steps'', ''cfg'']
            \<longrightarrow> map_of ps k = map_of ps' k"
  have "map_of ps ''positive_prompt'' = map_of ps' ''positive_prompt''"
    "map_of ps ''prompt'' = map_of ps' ''prompt''"
    "map_of ps ''image_url'' = map_of ps' ''image_url''"
    using same by simp_all
  from update_nodes_params [OF this]
  have "update_nodes env (JDict ps) nodes w = update_nodes env (JDict ps') nodes w" for nodes .
  then show "update_workflow_with_inputs env workflow (JDict ps) w
          = update_workflow_with_inputs env workflow (JDict ps') w"
    unfolding update_workflow_with_inputs_def by (simp cong: sum.case_cong)
qed

theorem binder_frame_witness:
  "(\<exists>nodes' w'. update_workflow_with_inputs demo_env (JDict demo_graph)
                     (JDict ((''image_url'', JStr ''http://host/a.png'') # demo_params)) demo_world
                   = (Inr (JDict nodes'), w')
        \<and> map fst nodes' = [''6'', ''3'', ''10'']
        \<and> snd (nodes' ! 1) = snd (demo_graph ! 1)
        \<and> node_input (snd (nodes' ! 0)) ''clip'' = Some (JList [JStr ''4'', JInt 1])
        \<and> node_input (snd (nodes' ! 2)) ''upload'' = Some (JStr ''image''))
   \<and> update_workflow_with_inputs demo_env (JDict demo_graph)
        (JDict ((''seed'', JInt 5) # (''cfg'', JFloat 7) # demo_params)) demo_world
      = update_workflow_with_inputs demo_env (JDict demo_graph) (JDict demo_params) demo_world"
proof -
  define ps where "ps = (''image_url'', JStr ''http://host/a.png'') # demo_params"
  have "\<exists>nodes' w'. update_workflow_with_inputs demo_env (JDict demo_graph) (JDict ps) demo_world
                   = (Inr (JDict nodes'), w')"
    by (simp add: ps_def demo_graph_def demo_params_def demo_env_def demo_world_def
          update_workflow_with_inputs_def py_items_def update_text_def update_image_def
          py_get_def py_contains_def py_getitem_def py_setitem_def set_input_def
          download_image_def request_def raise_for_status_def dirname_def basename_def demo_fs_def)
  then obtain nodes' w' where
    r: "update_workflow_with_inputs demo_env (JDict demo_graph) (JDict ps) demo_world
          = (Inr (JDict nodes'), w')" by blast
  from binder_frame [of demo_env "JDict demo_graph" "JDict ps" demo_world "JDict nodes'" w'] r
  have keys: "map fst nodes' = map fst demo_graph"
    and at: "\<forall>i. i < length demo_graph \<longrightarrow> node_frame (snd (demo_graph ! i)) (snd (nodes' ! i))"
    by auto
  have n0: "snd (demo_graph ! 0) = JDict [(''class_type'', JStr ''CLIPTextEncode''),
                     (''inputs'', JDict [(''text'', JStr ''old''), (''clip'', JList [JStr ''4'', JInt 1])])]"
    and n1: "snd (demo_graph ! Suc 0) = JDict [(''class_type'', JStr ''KSampler''),
                     (''inputs'', JDict [(''seed'', JInt 7), (''text'', JStr ''keep'')])]"
    and n2: "snd (demo_graph ! 2) = JDict [(''class_type'', JStr ''LoadImage''),
                      (''inputs'', JDict [(''image'', JStr ''example.png''), (''upload'', JStr ''image'')])]"
    and len: "length demo_graph = 3"
    by (simp_all add: demo_graph_def)
  have k: "map fst nodes' = [''6'', ''3'', ''10'']"
    using keys by (simp add: demo_graph_def)
  have one: "snd (nodes' ! 1) = snd (demo_graph ! 1)"
    using at [rule_format, of 1] len
    by (simp add: node_frame_def n1 is_class_def node_field_def)
  have clip: "node_input (snd (nodes' ! 0)) ''clip'' = Some (JList [JStr ''4'', JInt 1])"
    using at [rule_format, of 0] len
    by (simp add: node_frame_def n0 is_class_def node_field_def node_input_def)
  have upload: "node_input (snd (nodes' ! 2)) ''upload'' = Some (JStr ''image'')"
    using at [rule_format, of 2] len
    by (simp add: node_frame_def n2 is_class_def node_field_def node_input_def)
  have agree: "\<forall>k. k \<notin> set [''negative_prompt'', ''seed'', ''steps'', ''cfg'']
      \<longrightarrow> map_of ((''seed'', JInt 5) # (''cfg'', JFloat 7) # demo_params) k = map_of demo_params k"
    by simp
  from binder_frame [of demo_env "JDict demo_graph" _ demo_world _ _
        "(''seed'', JInt 5) # (''cfg'', JFloat 7) # demo_params" demo_params] agree
  have indep: "update_workflow_with_inputs demo_env (JDict demo_graph)
        (JDict ((''seed'', JInt 5) # (''cfg'', JFloat 7) # demo_params)) demo_world
      = update_workflow_with_inputs demo_env (JDict demo_graph) (JDict demo_params) demo_world"
    by blast
  show ?thesis
  proof (rule conjI)
    from r k one clip upload
    show "\<exists>nodes' w'. update_workflow_with_inputs demo_env (JDict demo_graph)
                     (JDict ((''image_url'', JStr ''http://host/a.png'') # demo_params)) demo_world
                   = (Inr (JDict nodes'), w')
        \<and> map fst nodes' = [''6'', ''3'', ''10'']
        \<and> snd (nodes' ! 1) = snd (demo_graph ! 1)
        \<and> node_input (snd (nodes' ! 0)) ''clip'' = Some (JList [JStr ''4'', JInt 1])
        \<and> node_input (snd (nodes' ! 2)) ''upload'' = Some (JStr ''image'')"
      unfolding ps_def by (intro exI [of _ nodes'] exI [of _ w'] conjI)
  qed (rule indep)
qed


subsection \<open>Job client\<close>

lemma history_outputs_absent:
  "handle_absent env prompt_id t \<Longrightarrow> history_outputs env prompt_id t = Inr None"
  by (auto simp: handle_absent_def history_outputs_def py_contains_def
      split: sum.splits json.splits)

lemma outputs_of_SomeD:
  "outputs_of env prompt_id t = Some output \<Longrightarrow>
   \<exists>history entry. http_get_history env prompt_id t = Inr (JDict history)
      \<and> map_of history prompt_id = Some (JDict entry) \<and> map_of entry ''outputs'' = Some output"
  by (auto simp: outputs_of_def split: sum.splits json.splits option.splits)

lemma history_outputs_present:
  "outputs_of env prompt_id t = Some output \<Longrightarrow>
   history_outputs env prompt_id t = Inr (if py_truthy output then Some output else None)"
  by (auto simp: history_outputs_def py_contains_def py_getitem_def dest!: outputs_of_SomeD)

lemma history_outputs_empty:
  "outputs_empty env prompt_id t \<Longrightarrow> history_outputs env prompt_id t = Inr None"
  by (auto simp: outputs_empty_def history_outputs_present split: option.splits)

lemma history_outputs_ready:
  "outputs_ready env prompt_id t output \<Longrightarrow> history_outputs env prompt_id t = Inr (Some output)"
  by (simp add: outputs_ready_def history_outputs_present)

lemma after_polls_0: "after_polls env prompt_id w 0 = w"
  by (simp add: after_polls_def poll_time_def)

lemma after_polls_Suc:
  "sleep 1 (request env (GetHistory prompt_id) (after_polls env prompt_id w k))
     = after_polls env prompt_id w (Suc k)"
  by (simp add: after_polls_def poll_time_def sleep_def request_def)

lemma clock_after_polls: "clock (after_polls env prompt_id w k) = poll_time env (clock w) k"
  by (simp add: after_polls_def)

lemma wait_loop_pending:
  assumes "\<forall>j<k. handle_absent env prompt_id (poll_time env (clock w) j)
                 \<or> outputs_empty env prompt_id (poll_time env (clock w) j)"
    and "\<forall>j<k. int (poll_time env (clock w) j) - int start_time < timeout"
  shows "wait_loop env prompt_id timeout start_time w
           = wait_loop env prompt_id timeout start_time (after_polls env prompt_id w k)"
  using assms
proof (induction k)
  case 0
  show ?case by (simp add: after_polls_0)
next
  case (Suc k)
  let ?w = "after_polls env prompt_id w k"
  from Suc.prems have pend: "history_outputs env prompt_id (clock ?w) = Inr None"
    by (auto simp: clock_after_polls history_outputs_absent history_outputs_empty)
  from Suc.prems have win: "int (clock ?w) - int start_time < timeout"
    by (simp add: clock_after_polls)
  from Suc have "wait_loop env prompt_id timeout start_time w
                   = wait_loop env prompt_id timeout start_time ?w" by simp
  also from pend win have "\<dots> = wait_loop env prompt_id timeout start_time
                                   (sleep 1 (request env (GetHistory prompt_id) ?w))"
    by (subst wait_loop.simps) (simp add: poll_history_def)
  finally show ?case by (simp only: after_polls_Suc)
qed

lemma poll_time_no_latency: "(\<And>t. latency env t = 0) \<Longrightarrow> poll_time env t0 k = t0 + k"
  by (induction k) (simp_all add: poll_time_def)

text \<open>
  Claim C6. Polls are made at the times \<open>poll_time\<close>: the first at the start,
  each next one a time-unit after the answer to the one before. If at each
  of the first \<open>k\<close> polls, all within the timeout, the handle is absent from
  the history or is there with empty outputs, then: if the time of the next
  poll is past the timeout, \<open>wait_for_completion\<close> raises \<open>TimeoutError\<close> with
  a message naming the handle, after exactly those \<open>k\<close> polls; and if it is
  within the timeout and the history then has non-empty outputs for the
  handle, \<open>wait_for_completion\<close> returns them, after \<open>k + 1\<close> polls. The
  witness takes the default timeout of 600.
\<close>

theorem wait_for_completion_polls:
  assumes "\<forall>j<k. handle_absent env prompt_id (poll_time env (clock w) j)
                 \<or> outputs_empty env prompt_id (poll_time env (clock w) j)"
    and "\<forall>j<k. int (poll_time env (clock w) j) - int (clock w) < timeout"
  shows "(timeout \<le> int (poll_time env (clock w) k) - int (clock w)
            \<longrightarrow> wait_for_completion env prompt_id timeout w
                = (Inl (TimeoutError (''Workflow '' @ prompt_id @ '' did not complete within ''
                                       @ show_int timeout @ '' seconds'')),
                   after_polls env prompt_id w k))
       \<and> (int (poll_time env (clock w) k) - int (clock w) < timeout
            \<and> outputs_ready env prompt_id (poll_time env (clock w) k) output
            \<longrightarrow> wait_for_completion env prompt_id timeout w
                = (Inr output, request env (GetHistory prompt_id) (after_polls env prompt_id w k)))
       \<and> poll_time env (clock w) 0 = clock w
       \<and> (\<forall>j. poll_time env (clock w) (Suc j)
                = poll_time env (clock w) j + latency env (poll_time env (clock w) j) + 1)"
proof -
  let ?w = "after_polls env prompt_id w k"
  have run: "wait_for_completion env prompt_id timeout w
               = wait_loop env prompt_id timeout (clock w) ?w"
    unfolding wait_for_completion_def by (rule wait_loop_pending [OF assms])
  have late: "wait_loop env prompt_id timeout (clock w) ?w
      = (Inl (TimeoutError (''Workflow '' @ prompt_id @ '' did not complete within ''
                                       @ show_int timeout @ '' seconds'')), ?w)"
    if "timeout \<le> int (poll_time env (clock w) k) - int (clock w)"
    using that by (subst wait_loop.simps) (simp add: clock_after_polls)
  have ready: "wait_loop env prompt_id timeout (clock w) ?w
      = (Inr output, request env (GetHistory prompt_id) ?w)"
    if "int (poll_time env (clock w) k) - int (clock w) < timeout"
       "outputs_ready env prompt_id (poll_time env (clock w) k) output"
    using that
    by (subst wait_loop.simps)
       (simp add: clock_after_polls poll_history_def history_outputs_ready)
  from run late ready show ?thesis
    by (simp add: poll_time_def)
qed


theorem wait_for_completion_polls_witness:
  "wait_for_completion never_env ''abc'' DEFAULT_TIMEOUT demo_world
     = (Inl (TimeoutError ''Workflow abc did not complete within 600 seconds''),
        after_polls never_env ''abc'' demo_world 600)
   \<and> clock (after_polls never_env ''abc'' demo_world 600) = 700
   \<and> wait_for_completion slow_env ''abc'' DEFAULT_TIMEOUT demo_world
     = (Inr demo_manifest, request slow_env (GetHistory ''abc'') (after_polls slow_env ''abc'' demo_world 3))
   \<and> trace (after_polls slow_env ''abc'' demo_world 3)
     = [(100, GetHistory ''abc''), (101, GetHistory ''abc''), (102, GetHistory ''abc'')]"
proof -
  have never_time: "poll_time never_env t0 k = t0 + k" for t0 k
    by (rule poll_time_no_latency) (simp add: never_env_def demo_env_def)
  have slow_time: "poll_time slow_env t0 k = t0 + k" for t0 k
    by (rule poll_time_no_latency) (simp add: slow_env_def demo_env_def)
  have start: "clock demo_world = 100"
    by (simp add: demo_world_def)
  have msg: "show_int DEFAULT_TIMEOUT = ''600''"
    by (simp add: DEFAULT_TIMEOUT_def show_int_def show_nat.simps digit_char_def)
  have absent: "\<forall>j<600. handle_absent never_env ''abc'' (poll_time never_env (clock demo_world) j)
                 \<or> outputs_empty never_env ''abc'' (poll_time never_env (clock demo_world) j)"
    unfolding never_time start
    by (simp add: handle_absent_def never_env_def demo_env_def)
  have window: "\<forall>j<600. int (poll_time never_env (clock demo_world) j) - int (clock demo_world)
                          < DEFAULT_TIMEOUT"
    by (simp add: never_time DEFAULT_TIMEOUT_def)
  have over: "DEFAULT_TIMEOUT \<le> int (poll_time never_env (clock demo_world) 600) - int (clock demo_world)"
    by (simp add: never_time DEFAULT_TIMEOUT_def)
  from wait_for_completion_polls [OF absent window] over msg
  have a: "wait_for_completion never_env ''abc'' DEFAULT_TIMEOUT demo_world
     = (Inl (TimeoutError ''Workflow abc did not complete within 600 seconds''),
        after_polls never_env ''abc'' demo_world 600)"
    by simp
  have b: "clock (after_polls never_env ''abc'' demo_world 600) = 700"
    by (simp add: clock_after_polls never_time start)
  have empty: "\<forall>j<3. handle_absent slow_env ''abc'' (poll_time slow_env (clock demo_world) j)
                 \<or> outputs_empty slow_env ''abc'' (poll_time slow_env (clock demo_world) j)"
    unfolding slow_time start
    by (simp add: outputs_empty_def outputs_of_def slow_env_def demo_env_def py_truthy_def)
  have window': "\<forall>j<3. int (poll_time slow_env (clock demo_world) j) - int (clock demo_world)
                          < DEFAULT_TIMEOUT"
    by (simp add: slow_time DEFAULT_TIMEOUT_def)
  have ready: "int (poll_time slow_env (clock demo_world) 3) - int (clock demo_world) < DEFAULT_TIMEOUT
      \<and> outputs_ready slow_env ''abc'' (poll_time slow_env (clock demo_world) 3) demo_manifest"
    unfolding slow_time start
    by (simp add: DEFAULT_TIMEOUT_def outputs_ready_def outputs_of_def slow_env_def
          demo_env_def demo_manifest_def py_truthy_def)
  from wait_for_completion_polls [OF empty window', of demo_manifest] ready
  have c: "wait_for_completion slow_env ''abc'' DEFAULT_TIMEOUT demo_world
     = (Inr demo_manifest, request slow_env (GetHistory ''abc'') (after_polls slow_env ''abc'' demo_world 3))"
    by simp
  have d: "trace (after_polls slow_env ''abc'' demo_world 3)
     = [(100, GetHistory ''abc''), (101, GetHistory ''abc''), (102, GetHistory ''abc'')]"
    by (simp add: after_polls_def slow_time start demo_world_def upt_rec)
  from a b c d show ?thesis by simp
qed


subsection \<open>Process supervisor\<close>

lemma wait_ready_returns:
  "wait_ready env pid n w = (Inr u, w') \<Longrightarrow>
   comfyui_ready w' \<and> comfyui_process w' = comfyui_process w
   \<and> (\<exists>t calls. clock w \<le> t \<and> http_system_stats env t = Some 200
         \<and> trace w' = trace w @ calls \<and> (t, GetSystemStats) \<in> set calls)"
proof (induction n arbitrary: w)
  case 0
  then show ?case by simp
next
  case (Suc n)
  show ?case
  proof (cases "http_system_stats env (clock w) = Some 200")
    case True
    with Suc.prems have "w' = (request env GetSystemStats w)\<lparr>comfyui_ready := True\<rparr>"
      by (simp add: Let_def)
    with True show ?thesis
      by (auto simp: request_def intro!: exI [of _ "clock w"])
  next
    case False
    let ?w2 = "log_call (PollProcess pid) (request env GetSystemStats w)"
    from False Suc.prems have r: "wait_ready env pid n (sleep 2 ?w2) = (Inr u, w')"
      by (simp add: Let_def split: if_splits)
    from Suc.IH [OF r] obtain t calls where
      "comfyui_ready w'" "comfyui_process w' = comfyui_process (sleep 2 ?w2)"
      "clock (sleep 2 ?w2) \<le> t" "http_system_stats env t = Some 200"
      "trace w' = trace (sleep 2 ?w2) @ calls" "(t, GetSystemStats) \<in> set calls"
      by blast
    then show ?thesis
      by (auto simp: sleep_def log_call_def request_def
          intro!: exI [of _ t])
  qed
qed

lemma wait_ready_raises:
  "wait_ready env pid n w = (Inl e, w') \<Longrightarrow>
   comfyui_ready w' = comfyui_ready w \<and> comfyui_process w' = comfyui_process w"
proof (induction n arbitrary: w)
  case 0
  then show ?case by simp
next
  case (Suc n)
  then show ?case
    by (auto simp: Let_def sleep_def log_call_def request_def split: if_splits)
qed

lemma wait_ready_times_out:
  assumes "\<And>t. http_system_stats env t \<noteq> Some 200" and "\<And>t. process_running env pid t"
  shows "fst (wait_ready env pid n w)
           = Inl (RuntimeError ''ComfyUI API server failed to start within timeout'')"
  using assms by (induction n arbitrary: w) (simp_all add: Let_def)

lemma spawn_and_wait_returns:
  assumes "spawn_and_wait env w0 = (Inr u, w')"
  shows "\<exists>pid t after. popen env (clock w0) = Inr pid
           \<and> comfyui_process w' = Some pid \<and> comfyui_ready w'
           \<and> clock w0 \<le> t \<and> http_system_stats env t = Some 200
           \<and> trace w' = trace w0 @ (clock w0, Spawn) # after
           \<and> (t, GetSystemStats) \<in> set after"
proof -
  from assms obtain pid where p: "popen env (clock w0) = Inr pid"
    and r: "wait_ready env pid 60 (log_call Spawn (w0\<lparr>comfyui_process := Some pid\<rparr>)) = (Inr u, w')"
    by (auto simp: spawn_and_wait_def split: sum.splits)
  from wait_ready_returns [OF r] obtain t calls where
    "comfyui_ready w'" "comfyui_process w' = Some pid" "clock w0 \<le> t"
    "http_system_stats env t = Some 200"
    "trace w' = trace w0 @ (clock w0, Spawn) # calls" "(t, GetSystemStats) \<in> set calls"
    by (auto simp: log_call_def)
  with p show ?thesis by blast
qed

text \<open>
  Claim C5, as the code has it. \<open>start_comfyui\<close> returns without raising in
  three ways only. The process handle and the ready flag were both set: the
  state is untouched. Or the handle was set, the flag was not, and the
  process is still running: the call returns at once, having asked the
  server nothing, and the flag is still unset. Or there was no process, or
  the one there was had exited (which the call found by polling it): then a
  process was spawned, which the trace shows at the time of the call, it is
  the one the handle now holds, the server answered \<open>/system_stats\<close> with 200
  after the spawn, and the flag is set. Once the flag and the handle are
  set, a further call changes nothing.
\<close>

theorem start_comfyui_returns:
  "start_comfyui env w = (Inr u, w') \<Longrightarrow>
     ((comfyui_process w \<noteq> None \<and> comfyui_ready w \<and> w' = w)
      \<or> (\<exists>pid. comfyui_process w = Some pid \<and> \<not> comfyui_ready w
            \<and> process_running env pid (clock w)
            \<and> w' = log_call (PollProcess pid) w \<and> \<not> comfyui_ready w')
      \<or> (\<exists>pid t before after.
            ((comfyui_process w = None \<and> before = [])
             \<or> (\<exists>old. comfyui_process w = Some old \<and> \<not> comfyui_ready w
                   \<and> \<not> process_running env old (clock w)
                   \<and> before = [(clock w, PollProcess old)]))
            \<and> popen env (clock w) = Inr pid
            \<and> comfyui_process w' = Some pid \<and> comfyui_ready w'
            \<and> clock w \<le> t \<and> http_system_stats env t = Some 200
            \<and> trace w' = trace w @ before @ (clock w, Spawn) # after
            \<and> (t, GetSystemStats) \<in> set after))
     \<and> (comfyui_ready w' \<and> comfyui_process w' \<noteq> None \<longrightarrow> start_comfyui env w' = (Inr (), w'))"
proof
  assume r: "start_comfyui env w = (Inr u, w')"
  show "(comfyui_process w \<noteq> None \<and> comfyui_ready w \<and> w' = w)
      \<or> (\<exists>pid. comfyui_process w = Some pid \<and> \<not> comfyui_ready w
            \<and> process_running env pid (clock w)
            \<and> w' = log_call (PollProcess pid) w \<and> \<not> comfyui_ready w')
      \<or> (\<exists>pid t before after.
            ((comfyui_process w = None \<and> before = [])
             \<or> (\<exists>old. comfyui_process w = Some old \<and> \<not> comfyui_ready w
                   \<and> \<not> process_running env old (clock w)
                   \<and> before = [(clock w, PollProcess old)]))
            \<and> popen env (clock w) = Inr pid
            \<and> comfyui_process w' = Some pid \<and> comfyui_ready w'
            \<and> clock w \<le> t \<and> http_system_stats env t = Some 200
            \<and> trace w' = trace w @ before @ (clock w, Spawn) # after
            \<and> (t, GetSystemStats) \<in> set after)"
  proof (cases "comfyui_process w")
    case None
    with r have "spawn_and_wait env w = (Inr u, w')"
      by (simp add: start_comfyui_def)
    from spawn_and_wait_returns [OF this] obtain pid t after where
      "popen env (clock w) = Inr pid" "comfyui_process w' = Some pid" "comfyui_ready w'"
      "clock w \<le> t" "http_system_stats env t = Some 200"
      "trace w' = trace w @ [] @ (clock w, Spawn) # after" "(t, GetSystemStats) \<in> set after"
      by auto
    with None have "\<exists>pid t before after.
            ((comfyui_process w = None \<and> before = [])
             \<or> (\<exists>old. comfyui_process w = Some old \<and> \<not> comfyui_ready w
                   \<and> \<not> process_running env old (clock w)
                   \<and> before = [(clock w, PollProcess old)]))
            \<and> popen env (clock w) = Inr pid
            \<and> comfyui_process w' = Some pid \<and> comfyui_ready w'
            \<and> clock w \<le> t \<and> http_system_stats env t = Some 200
            \<and> trace w' = trace w @ before @ (clock w, Spawn) # after
            \<and> (t, GetSystemStats) \<in> set after"
      by (intro exI [of _ pid] exI [of _ t] exI [of _ "[]"] exI [of _ after]) simp
    then show ?thesis by blast
  next
    case (Some old)
    show ?thesis
    proof (cases "comfyui_ready w")
      case True
      with r Some show ?thesis by (simp add: start_comfyui_def)
    next
      case False
      show ?thesis
      proof (cases "process_running env old (clock w)")
        case True
        with r Some False have "w' = log_call (PollProcess old) w"
          by (simp add: start_comfyui_def Let_def log_call_def)
        with Some False True show ?thesis by (simp add: log_call_def)
      next
        case dead: False
        let ?w1 = "(log_call (PollProcess old) w)\<lparr>comfyui_process := None\<rparr>"
        from r Some False dead have "spawn_and_wait env ?w1 = (Inr u, w')"
          by (simp add: start_comfyui_def Let_def log_call_def)
        from spawn_and_wait_returns [OF this] obtain pid t after where
          "popen env (clock w) = Inr pid" "comfyui_process w' = Some pid" "comfyui_ready w'"
          "clock w \<le> t" "http_system_stats env t = Some 200"
          "trace w' = trace w @ [(clock w, PollProcess old)] @ (clock w, Spawn) # after"
          "(t, GetSystemStats) \<in> set after"
          by (auto simp: log_call_def)
        with Some False dead have "\<exists>pid t before after.
            ((comfyui_process w = None \<and> before = [])
             \<or> (\<exists>old. comfyui_process w = Some old \<and> \<not> comfyui_ready w
                   \<and> \<not> process_running env old (clock w)
                   \<and> before = [(clock w, PollProcess old)]))
            \<and> popen env (clock w) = Inr pid
            \<and> comfyui_process w' = Some pid \<and> comfyui_ready w'
            \<and> clock w \<le> t \<and> http_system_stats env t = Some 200
            \<and> trace w' = trace w @ before @ (clock w, Spawn) # after
            \<and> (t, GetSystemStats) \<in> set after"
          by (intro exI [of _ pid] exI [of _ t] exI [of _ "[(clock w, PollProcess old)]"]
                exI [of _ after]) simp
        then show ?thesis by blast
      qed
    qed
  qed
  show "comfyui_ready w' \<and> comfyui_process w' \<noteq> None \<longrightarrow> start_comfyui env w' = (Inr (), w')"
    by (auto simp: start_comfyui_def)
qed

theorem start_comfyui_returns_witness:
  "start_comfyui warm_env boot_world = (Inr (), warm_world)
   \<and> popen warm_env (clock boot_world) = Inr 1
   \<and> comfyui_process warm_world = Some 1 \<and> comfyui_ready warm_world
   \<and> (\<exists>after. trace warm_world = (0, Spawn) # after \<and> (4, GetSystemStats) \<in> set after)
   \<and> http_system_stats warm_env 4 = Some 200
   \<and> start_comfyui warm_env warm_world = (Inr (), warm_world)"
proof -
  have r: "start_comfyui warm_env boot_world = (Inr (), warm_world)"
    by (simp add: start_comfyui_def spawn_and_wait_def boot_world_def warm_world_def warm_env_def
          demo_env_def eval_nat_numeral Let_def request_def log_call_def sleep_def)
  have fresh: "comfyui_process boot_world = None" "trace boot_world = []" "clock boot_world = 0"
    by (simp_all add: boot_world_def)
  note fact = start_comfyui_returns [OF r]
  from fact [THEN conjunct1] fresh obtain pid t after where
    spawned: "popen warm_env (clock boot_world) = Inr pid" "comfyui_process warm_world = Some pid"
      "comfyui_ready warm_world" "http_system_stats warm_env t = Some 200"
      "trace warm_world = (0, Spawn) # after" "(t, GetSystemStats) \<in> set after"
    by auto
  have pid: "popen warm_env (clock boot_world) = Inr 1"
    by (simp add: warm_env_def demo_env_def)
  with spawned have one: "comfyui_process warm_world = Some 1" by simp
  from spawned(4,6) spawned(5) have four: "(4, GetSystemStats) \<in> set after"
    by (auto simp: warm_world_def warm_env_def split: if_splits)
  from fact [THEN conjunct2] spawned(3) one
  have again: "start_comfyui warm_env warm_world = (Inr (), warm_world)" by simp
  have answered: "http_system_stats warm_env 4 = Some 200"
    by (simp add: warm_env_def)
  from r pid one spawned(3,5) four answered again show ?thesis by blast
qed

text \<open>
  The claim as stated fails at the second of two calls. The server never
  answers; the first call spawns the process, uses up its 60 attempts and
  raises. The process is still running, so the second call returns without
  raising: the ready flag is unset and the server has answered nothing.
\<close>

theorem partial_readiness_counterexample:
  "fst (start_comfyui demo_env boot_world)
     = Inl (RuntimeError ''ComfyUI API server failed to start within timeout'')
   \<and> fst (start_comfyui demo_env (snd (start_comfyui demo_env boot_world))) = Inr ()
   \<and> \<not> comfyui_ready (snd (start_comfyui demo_env (snd (start_comfyui demo_env boot_world))))
   \<and> (\<forall>t. http_system_stats demo_env t = None)"
proof -
  define w0 where "w0 = log_call Spawn (boot_world\<lparr>comfyui_process := Some 1\<rparr>)"
  have first: "start_comfyui demo_env boot_world = wait_ready demo_env 1 60 w0"
    by (simp add: start_comfyui_def spawn_and_wait_def boot_world_def demo_env_def w0_def)
  have never: "http_system_stats demo_env t \<noteq> Some 200" and alive: "process_running demo_env 1 t" for t
    by (simp_all add: demo_env_def)
  from wait_ready_times_out [of demo_env 1 60 w0, OF never alive]
  have a: "fst (start_comfyui demo_env boot_world)
     = Inl (RuntimeError ''ComfyUI API server failed to start within timeout'')"
    by (simp add: first)
  define w1 where "w1 = snd (start_comfyui demo_env boot_world)"
  from a have "wait_ready demo_env 1 60 w0
     = (Inl (RuntimeError ''ComfyUI API server failed to start within timeout''), w1)"
    unfolding w1_def first by (simp add: prod_eq_iff)
  from wait_ready_raises [OF this]
  have "comfyui_ready w1 = comfyui_ready w0" "comfyui_process w1 = comfyui_process w0"
    by simp_all
  then have w1: "\<not> comfyui_ready w1" "comfyui_process w1 = Some 1"
    by (simp_all add: w0_def log_call_def boot_world_def)
  then have second: "start_comfyui demo_env w1 = (Inr (), log_call (PollProcess 1) w1)"
    by (simp add: start_comfyui_def Let_def demo_env_def)
  with w1 have b: "fst (start_comfyui demo_env w1) = Inr ()"
    and c: "\<not> comfyui_ready (snd (start_comfyui demo_env w1))"
    by (simp_all add: log_call_def)
  have d: "\<forall>t. http_system_stats demo_env t = None"
    by (simp add: demo_env_def)
  from a b c d show ?thesis
    unfolding w1_def by simp
qed


subsection \<open>Delivery pipeline\<close>

lemma upload_unconfigured:
  "\<not> s3_configured env \<Longrightarrow>
   upload_to_s3 env file_path s3_key w = (Inl (ValueError ''S3 configuration is incomplete''), w)"
  by (simp add: upload_to_s3_def split: option.splits)

lemma upload_keeps_fs: "upload_to_s3 env file_path s3_key w = (r, w') \<Longrightarrow> fs w' = fs w"
  by (auto simp: upload_to_s3_def request_def Let_def split: option.splits if_splits)

lemma fallback_record_file:
  "fsys file_path = Some (File content) \<Longrightarrow>
   fallback_record env fsys file_path file_ext
     = Inr (if length content < MAX_INLINE
            then inline_record (file_type_inline file_ext) (b64encode content) (drop 1 file_ext)
            else error_record (length content))"
  by (simp add: fallback_record_def getsize_def read_file_def)

lemma deliver_one_exact:
  assumes "fs w file_path = Some (File content)"
    and "upload_to_s3 env file_path
           (s3_key_of env workflow_name timestamp i (splitext_ext file_path)) w = (outcome, wu)"
  shows "deliver_one env workflow_name timestamp i file_path w
           = (Inr (tier_record file_path content outcome), wu)"
proof (cases outcome)
  case (Inr url)
  with assms(2) show ?thesis
    by (simp add: deliver_one_def Let_def url_record_def tier_record_def)
next
  case (Inl e)
  from upload_keeps_fs [OF assms(2)] assms(1)
  have "fs wu file_path = Some (File content)" by simp
  from fallback_record_file [where fsys = "fs wu", OF this] assms(2) Inl show ?thesis
    by (simp add: deliver_one_def Let_def MAX_INLINE_def inline_record_def error_record_def
          tier_record_def)
qed

lemma deliver_exact:
  assumes "\<forall>p \<in> set paths. \<exists>content. fs w p = Some (File content)"
  shows "\<exists>records ws. deliver env workflow_name timestamp i paths output_urls w
                         = (Inr (output_urls @ records), ws ! length paths)
          \<and> length records = length paths \<and> length ws = Suc (length paths) \<and> ws ! 0 = w
          \<and> (\<forall>j < length paths. \<exists>content outcome.
                fs w (paths ! j) = Some (File content)
                \<and> upload_to_s3 env (paths ! j)
                    (s3_key_of env workflow_name timestamp (i + j) (splitext_ext (paths ! j)))
                    (ws ! j) = (outcome, ws ! Suc j)
                \<and> records ! j = tier_record (paths ! j) content outcome)"
  using assms
proof (induction paths arbitrary: i output_urls w)
  case Nil
  show ?case by (intro exI [of _ "[]"] exI [of _ "[w]"]) simp
next
  case (Cons p paths)
  from Cons.prems obtain c where p: "fs w p = Some (File c)" by auto
  obtain outcome w1 where up: "upload_to_s3 env p
      (s3_key_of env workflow_name timestamp i (splitext_ext p)) w = (outcome, w1)"
    by (cases "upload_to_s3 env p (s3_key_of env workflow_name timestamp i (splitext_ext p)) w")
  from upload_keeps_fs [OF up] have same: "fs w1 = fs w" .
  define r where "r = tier_record p c outcome"
  from deliver_one_exact [OF p up]
  have one: "deliver_one env workflow_name timestamp i p w = (Inr r, w1)"
    by (simp add: r_def)
  from Cons.prems same have "\<forall>p \<in> set paths. \<exists>content. fs w1 p = Some (File content)" by simp
  from Cons.IH [OF this, of "Suc i" "output_urls @ [r]"] obtain records ws where
    rest: "deliver env workflow_name timestamp (Suc i) paths (output_urls @ [r]) w1
       = (Inr ((output_urls @ [r]) @ records), ws ! length paths)"
    and len: "length records = length paths" and lenw: "length ws = Suc (length paths)"
    and first: "ws ! 0 = w1"
    and each: "\<forall>j < length paths. \<exists>content outcome.
                fs w1 (paths ! j) = Some (File content)
                \<and> upload_to_s3 env (paths ! j)
                    (s3_key_of env workflow_name timestamp (Suc i + j) (splitext_ext (paths ! j)))
                    (ws ! j) = (outcome, ws ! Suc j)
                \<and> records ! j = tier_record (paths ! j) content outcome"
    by blast
  have "\<exists>content outcome.
          fs w ((p # paths) ! j) = Some (File content)
          \<and> upload_to_s3 env ((p # paths) ! j)
              (s3_key_of env workflow_name timestamp (i + j) (splitext_ext ((p # paths) ! j)))
              ((w # ws) ! j) = (outcome, (w # ws) ! Suc j)
          \<and> (r # records) ! j = tier_record ((p # paths) ! j) content outcome"
    if "j < length (p # paths)" for j
  proof (cases j)
    case 0
    with p up first show ?thesis
      by (intro exI [of _ c] exI [of _ outcome]) (simp add: r_def)
  next
    case (Suc j')
    with that have "j' < length paths" by simp
    with each obtain content' outcome' where
      "fs w1 (paths ! j') = Some (File content')"
      "upload_to_s3 env (paths ! j')
         (s3_key_of env workflow_name timestamp (Suc i + j') (splitext_ext (paths ! j')))
         (ws ! j') = (outcome', ws ! Suc j')"
      "records ! j' = tier_record (paths ! j') content' outcome'"
      by blast
    with Suc same show ?thesis
      by (intro exI [of _ content'] exI [of _ outcome']) simp
  qed
  with one rest len lenw show ?case
    by (intro exI [of _ "r # records"] exI [of _ "w # ws"]) simp
qed

lemma collect_infos_exist:
  "collect_infos fsys infos files = Inr files' \<Longrightarrow> \<forall>p \<in> set files. fsys p \<noteq> None \<Longrightarrow>
   \<forall>p \<in> set files'. fsys p \<noteq> None"
proof (induction infos arbitrary: files)
  case Nil
  then show ?case by simp
next
  case (Cons info infos)
  from Cons.prems(1) obtain files1 where
    rest: "collect_infos fsys infos files1 = Inr files'"
    and acc: "files1 = files \<or> (\<exists>p. fsys p \<noteq> None \<and> files1 = files @ [p])"
    by (auto split: sum.splits if_splits)
  from acc Cons.prems(2) have "\<forall>p \<in> set files1. fsys p \<noteq> None" by auto
  from Cons.IH [OF rest this] show ?case .
qed

lemma collect_list_exist:
  "collect_list fsys key node_output files = Inr files' \<Longrightarrow> \<forall>p \<in> set files. fsys p \<noteq> None \<Longrightarrow>
   \<forall>p \<in> set files'. fsys p \<noteq> None"
  by (auto simp: collect_list_def and_then_def split: sum.splits if_splits
      dest: collect_infos_exist)

lemma collect_nodes_exist:
  "collect_nodes fsys nodes files = Inr files' \<Longrightarrow> \<forall>p \<in> set files. fsys p \<noteq> None \<Longrightarrow>
   \<forall>p \<in> set files'. fsys p \<noteq> None"
proof (induction nodes arbitrary: files)
  case Nil
  then show ?case by simp
next
  case (Cons kn nodes)
  obtain k n where kn: "kn = (k, n)" by (cases kn)
  from Cons.prems(1) kn obtain files1 files2 where
    a: "collect_list fsys ''images'' n files = Inr files1"
    and b: "collect_list fsys ''videos'' n files1 = Inr files2"
    and c: "collect_nodes fsys nodes files2 = Inr files'"
    by (auto split: sum.splits)
  from collect_list_exist [OF b collect_list_exist [OF a Cons.prems(2)]]
  have "\<forall>p \<in> set files2. fsys p \<noteq> None" .
  from Cons.IH [OF c this] show ?case .
qed

lemma get_output_files_exist:
  "get_output_files fsys outputs = Inr files \<Longrightarrow> \<forall>p \<in> set files. fsys p \<noteq> None"
  by (auto simp: get_output_files_def and_then_def split: sum.splits dest: collect_nodes_exist)


text \<open>
  Claim C1. A produced file is a path that is a file on disk. For such a
  file the loop body gives: when the upload returns a URL, the record
  \<open>{type, url, filename}\<close>, which has no \<open>data\<close>; when the upload raises and
  the file is under 10 MiB, the record \<open>{type, data, format}\<close> with the
  base64 of the content; when the upload raises and the file is 10 MiB or
  more, the record \<open>{type: error, error: ...}\<close> whose message has the size
  in bytes. The loop over produced files always returns, with one record a
  file, in order: the uploads are attempted one after the other, each in the
  state the one before it left, under the key made of the workflow name, the
  timestamp and the file's place in the list, and the record of a file is
  the one \<open>tier_record\<close> gives for the outcome of its own upload. And once
  the job has produced files (none of the paths a directory), lines 289 to
  348 return the COMPLETED mapping, whatever the uploads did; its outputs
  are those records, and the state returned is the one the last upload left.
\<close>

theorem delivery_tiers:
  "(fs w file_path = Some (File content) \<longrightarrow>
      (upload_to_s3 env file_path
           (s3_key_of env workflow_name timestamp i (splitext_ext file_path)) w = (Inr url, wu)
         \<longrightarrow> deliver_one env workflow_name timestamp i file_path w
             = (Inr (JDict [(''type'', JStr (file_type_uploaded (splitext_ext file_path))),
                            (''url'', JStr url),
                            (''filename'', JStr (basename file_path))]), wu))
      \<and> (upload_to_s3 env file_path
           (s3_key_of env workflow_name timestamp i (splitext_ext file_path)) w = (Inl e, wu)
           \<and> length content < 10 * 1024 * 1024
         \<longrightarrow> deliver_one env workflow_name timestamp i file_path w
             = (Inr (JDict [(''type'', JStr (file_type_inline (splitext_ext file_path))),
                            (''data'', JStr (b64encode content)),
                            (''format'', JStr (drop 1 (splitext_ext file_path)))]), wu))
      \<and> (upload_to_s3 env file_path
           (s3_key_of env workflow_name timestamp i (splitext_ext file_path)) w = (Inl e, wu)
           \<and> 10 * 1024 * 1024 \<le> length content
         \<longrightarrow> deliver_one env workflow_name timestamp i file_path w
             = (Inr (JDict [(''type'', JStr ''error''),
                            (''error'', JStr (''File too large for base64 encoding: ''
                                               @ show_nat (length content) @ '' bytes''))]), wu)))
   \<and> ((\<forall>p \<in> set paths. \<exists>content. fs w p = Some (File content))
        \<longrightarrow> (\<exists>records ws. deliver env workflow_name timestamp i paths output_urls w
                               = (Inr (output_urls @ records), ws ! length paths)
                \<and> length records = length paths \<and> length ws = Suc (length paths) \<and> ws ! 0 = w
                \<and> (\<forall>j < length paths. \<exists>content outcome.
                      fs w (paths ! j) = Some (File content)
                      \<and> upload_to_s3 env (paths ! j)
                          (s3_key_of env workflow_name timestamp (i + j) (splitext_ext (paths ! j)))
                          (ws ! j) = (outcome, ws ! Suc j)
                      \<and> records ! j = tier_record (paths ! j) content outcome)))
   \<and> (queue_workflow env workflow w = (Inr prompt_id, wq)
        \<and> wait_for_completion env prompt_id DEFAULT_TIMEOUT wq = (Inr outputs, ww)
        \<and> get_output_files (fs ww) outputs = Inr files \<and> files \<noteq> []
        \<and> (\<forall>p \<in> set files. fs ww p \<noteq> Some Dir)
        \<longrightarrow> (\<exists>records ws. run_and_deliver env start_time workflow_name workflow w
                               = (Inr (completed records workflow_name
                                         (clock (ws ! length files) - start_time) prompt_id),
                                  ws ! length files)
                \<and> length records = length files \<and> length ws = Suc (length files) \<and> ws ! 0 = ww
                \<and> (\<forall>j < length files. \<exists>content outcome.
                      fs ww (files ! j) = Some (File content)
                      \<and> upload_to_s3 env (files ! j)
                          (s3_key_of env workflow_name (clock ww) j (splitext_ext (files ! j)))
                          (ws ! j) = (outcome, ws ! Suc j)
                      \<and> records ! j = tier_record (files ! j) content outcome)))"
proof (intro conjI impI)
  assume regular: "fs w file_path = Some (File content)"
  let ?key = "s3_key_of env workflow_name timestamp i (splitext_ext file_path)"
  show "deliver_one env workflow_name timestamp i file_path w
             = (Inr (JDict [(''type'', JStr (file_type_uploaded (splitext_ext file_path))),
                            (''url'', JStr url),
                            (''filename'', JStr (basename file_path))]), wu)"
    if "upload_to_s3 env file_path ?key w = (Inr url, wu)"
    using that by (simp add: deliver_one_def Let_def url_record_def)
  show "deliver_one env workflow_name timestamp i file_path w
             = (Inr (JDict [(''type'', JStr (file_type_inline (splitext_ext file_path))),
                            (''data'', JStr (b64encode content)),
                            (''format'', JStr (drop 1 (splitext_ext file_path)))]), wu)"
    if "upload_to_s3 env file_path ?key w = (Inl e, wu) \<and> length content < 10 * 1024 * 1024"
  proof -
    from that upload_keeps_fs [of env file_path ?key w "Inl e" wu] regular
    have "fs wu file_path = Some (File content)" by simp
    from fallback_record_file [where fsys = "fs wu", OF this] that show ?thesis
      by (simp add: deliver_one_def Let_def MAX_INLINE_def inline_record_def)
  qed
  show "deliver_one env workflow_name timestamp i file_path w
             = (Inr (JDict [(''type'', JStr ''error''),
                            (''error'', JStr (''File too large for base64 encoding: ''
                                               @ show_nat (length content) @ '' bytes''))]), wu)"
    if "upload_to_s3 env file_path ?key w = (Inl e, wu) \<and> 10 * 1024 * 1024 \<le> length content"
  proof -
    from that upload_keeps_fs [of env file_path ?key w "Inl e" wu] regular
    have "fs wu file_path = Some (File content)" by simp
    from fallback_record_file [where fsys = "fs wu", OF this] that show ?thesis
      by (simp add: deliver_one_def Let_def MAX_INLINE_def error_record_def)
  qed
next
  assume "\<forall>p \<in> set paths. \<exists>content. fs w p = Some (File content)"
  from deliver_exact [OF this]
  show "\<exists>records ws. deliver env workflow_name timestamp i paths output_urls w
                               = (Inr (output_urls @ records), ws ! length paths)
                \<and> length records = length paths \<and> length ws = Suc (length paths) \<and> ws ! 0 = w
                \<and> (\<forall>j < length paths. \<exists>content outcome.
                      fs w (paths ! j) = Some (File content)
                      \<and> upload_to_s3 env (paths ! j)
                          (s3_key_of env workflow_name timestamp (i + j) (splitext_ext (paths ! j)))
                          (ws ! j) = (outcome, ws ! Suc j)
                      \<and> records ! j = tier_record (paths ! j) content outcome)" .
next
  assume run: "queue_workflow env workflow w = (Inr prompt_id, wq)
        \<and> wait_for_completion env prompt_id DEFAULT_TIMEOUT wq = (Inr outputs, ww)
        \<and> get_output_files (fs ww) outputs = Inr files \<and> files \<noteq> []
        \<and> (\<forall>p \<in> set files. fs ww p \<noteq> Some Dir)"
  then have "\<forall>p \<in> set files. fs ww p \<noteq> None"
    using get_output_files_exist by blast
  with run have "\<forall>p \<in> set files. \<exists>content. fs ww p = Some (File content)"
    by (metis fs_entry.exhaust option.exhaust)
  from deliver_exact [OF this, of env workflow_name "clock ww" 0 "[]"] obtain records ws where
    loop: "deliver env workflow_name (clock ww) 0 files [] ww = (Inr records, ws ! length files)"
    and len: "length records = length files" "length ws = Suc (length files)" "ws ! 0 = ww"
    and each: "\<forall>j < length files. \<exists>content outcome.
                      fs ww (files ! j) = Some (File content)
                      \<and> upload_to_s3 env (files ! j)
                          (s3_key_of env workflow_name (clock ww) j (splitext_ext (files ! j)))
                          (ws ! j) = (outcome, ws ! Suc j)
                      \<and> records ! j = tier_record (files ! j) content outcome"
    by auto
  from run loop have "run_and_deliver env start_time workflow_name workflow w
                               = (Inr (completed records workflow_name
                                         (clock (ws ! length files) - start_time) prompt_id),
                                  ws ! length files)"
    by (simp add: run_and_deliver_def)
  with len each
  show "\<exists>records ws. run_and_deliver env start_time workflow_name workflow w
                               = (Inr (completed records workflow_name
                                         (clock (ws ! length files) - start_time) prompt_id),
                                  ws ! length files)
                \<and> length records = length files \<and> length ws = Suc (length files) \<and> ws ! 0 = ww
                \<and> (\<forall>j < length files. \<exists>content outcome.
                      fs ww (files ! j) = Some (File content)
                      \<and> upload_to_s3 env (files ! j)
                          (s3_key_of env workflow_name (clock ww) j (splitext_ext (files ! j)))
                          (ws ! j) = (outcome, ws ! Suc j)
                      \<and> records ! j = tier_record (files ! j) content outcome)"
    by (intro exI [of _ records] exI [of _ ws]) simp
qed


lemma length_big_content: "length big_content = MAX_INLINE"
  unfolding big_content_def by (rule length_replicate)

theorem delivery_tiers_witness:
  "deliver_one s3_env (JStr ''t2v'') 100 0 ''/comfyui/output/clip.mp4'' demo_world
     = (Inr (JDict [(''type'', JStr ''video''),
                    (''url'', JStr ''https://s3.example/media/generated/t2v/100_0.mp4''),
                    (''filename'', JStr ''clip.mp4'')]),
        request s3_env (PutObject ''/comfyui/output/clip.mp4'' ''generated/t2v/100_0.mp4'') demo_world)
   \<and> deliver_one s3_env (JStr ''t2v'') 100 3 ''/comfyui/output/cat.gif'' demo_world
     = (Inr (JDict [(''type'', JStr ''image''), (''data'', JStr ''aGk=''), (''format'', JStr ''gif'')]),
        request s3_env (PutObject ''/comfyui/output/cat.gif'' ''generated/t2v/100_3.gif'') demo_world)
   \<and> deliver_one demo_env (JStr ''t2v'') 100 2 ''/comfyui/output/big.mp4'' big_world
     = (Inr (JDict [(''type'', JStr ''error''),
                    (''error'', JStr ''File too large for base64 encoding: 10485760 bytes'')]),
        big_world)
   \<and> deliver s3_env (JStr ''t2v'') 100 0
       [''/comfyui/output/clip.mp4'', ''/comfyui/output/cat.gif''] [] demo_world
     = (Inr [JDict [(''type'', JStr ''video''),
                    (''url'', JStr ''https://s3.example/media/generated/t2v/100_0.mp4''),
                    (''filename'', JStr ''clip.mp4'')],
             JDict [(''type'', JStr ''image''), (''data'', JStr ''aGk=''), (''format'', JStr ''gif'')]],
        request s3_env (PutObject ''/comfyui/output/cat.gif'' ''generated/t2v/100_1.gif'')
          (request s3_env (PutObject ''/comfyui/output/clip.mp4'' ''generated/t2v/100_0.mp4'')
             demo_world))
   \<and> run_and_deliver demo_env 100 JNull (JDict []) demo_world
     = (Inr (JDict [(''status'', JStr ''COMPLETED''),
                    (''outputs'', JList [JDict [(''type'', JStr ''image''), (''data'', JStr ''aGk=''),
                                                (''format'', JStr ''gif'')]]),
                    (''metadata'', JDict [(''workflow_name'', JNull),
                                          (''execution_time'', JFloat 0),
                                          (''prompt_id'', JStr ''abc'')])]),
        request demo_env (GetHistory ''abc'') (request demo_env (PostPrompt (JDict [])) demo_world))"
proof -
  let ?clip = "''/comfyui/output/clip.mp4''" and ?cat = "''/comfyui/output/cat.gif''"
  have clip: "fs demo_world ?clip = Some (File ''video'')"
    and cat: "fs demo_world ?cat = Some (File ''hi'')"
    by (simp_all add: demo_world_def demo_fs_def)
  have big: "fs big_world ''/comfyui/output/big.mp4'' = Some (File big_content)"
    by (simp add: big_world_def)
  have ext: "splitext_ext ?clip = ''.mp4''"
    "splitext_ext ?cat = ''.gif''"
    "splitext_ext ''/comfyui/output/big.mp4'' = ''.mp4''"
    "basename ?clip = ''clip.mp4''"
    by (simp_all add: splitext_ext_def basename_def)
  have nums: "show_nat 100 = ''100''" "show_nat 0 = ''0''" "show_nat 3 = ''3''" "show_nat 2 = ''2''"
    "show_nat 10485760 = ''10485760''"
    by (simp_all add: show_nat.simps digit_char_def)
  have one: "show_nat (Suc 0) = ''1''"
    by (simp add: show_nat.simps [of "Suc 0"] digit_char_def)
  have key: "s3_key_of env (JStr ''t2v'') 100 0 ''.mp4'' = ''generated/t2v/100_0.mp4''"
    "s3_key_of env (JStr ''t2v'') 100 3 ''.gif'' = ''generated/t2v/100_3.gif''"
    "s3_key_of env (JStr ''t2v'') 100 (Suc 0) ''.gif'' = ''generated/t2v/100_1.gif''"
    "s3_key_of env JNull 100 0 ''.gif'' = ''generated/None/100_0.gif''" for env
    by (simp_all add: s3_key_of_def py_str_def nums one)
  have up0: "upload_to_s3 s3_env ?clip ''generated/t2v/100_0.mp4'' v
      = (Inr ''https://s3.example/media/generated/t2v/100_0.mp4'',
         request s3_env (PutObject ?clip ''generated/t2v/100_0.mp4'') v)" for v
    by (simp add: upload_to_s3_def s3_configured_def setting_present_def s3_env_def demo_env_def)
  have up1: "upload_to_s3 s3_env ?cat k v = (Inl UploadFailed, request s3_env (PutObject ?cat k) v)"
    for k v
    by (simp add: upload_to_s3_def s3_configured_def setting_present_def s3_env_def demo_env_def)
  have up2: "upload_to_s3 demo_env p k v = (Inl (ValueError ''S3 configuration is incomplete''), v)"
    for p k v
    by (simp add: upload_to_s3_def demo_env_def)
  have tiers: "tier_record ?clip ''video'' (Inr url)
       = JDict [(''type'', JStr ''video''), (''url'', JStr url), (''filename'', JStr ''clip.mp4'')]"
    "tier_record ?cat ''hi'' (Inl e)
       = JDict [(''type'', JStr ''image''), (''data'', JStr ''aGk=''), (''format'', JStr ''gif'')]"
    for url e
    by (simp_all add: tier_record_def ext file_type_uploaded_def file_type_inline_def VIDEO_EXTS_def
          b64_char_def b64_alphabet_def)
  have small: "length ''hi'' < 10 * 1024 * 1024" by simp
  have large: "10 * 1024 * 1024 \<le> length big_content"
    by (simp add: length_big_content MAX_INLINE_def)
  note per_file = delivery_tiers [THEN conjunct1, THEN mp]
  note url_case = per_file [THEN conjunct1, THEN mp]
  note inline_case = per_file [THEN conjunct2, THEN conjunct1, THEN mp]
  note error_case = per_file [THEN conjunct2, THEN conjunct2, THEN mp]
  note loop_case = delivery_tiers [THEN conjunct2, THEN conjunct1, THEN mp]
  note run_case = delivery_tiers [THEN conjunct2, THEN conjunct2, THEN mp]
  have "upload_to_s3 s3_env ?clip
          (s3_key_of s3_env (JStr ''t2v'') 100 0 (splitext_ext ?clip)) demo_world
      = (Inr ''https://s3.example/media/generated/t2v/100_0.mp4'',
         request s3_env (PutObject ?clip ''generated/t2v/100_0.mp4'') demo_world)"
    by (simp add: ext key up0)
  from url_case [OF clip this]
  have a: "deliver_one s3_env (JStr ''t2v'') 100 0 ?clip demo_world
     = (Inr (JDict [(''type'', JStr ''video''),
                    (''url'', JStr ''https://s3.example/media/generated/t2v/100_0.mp4''),
                    (''filename'', JStr ''clip.mp4'')]),
        request s3_env (PutObject ?clip ''generated/t2v/100_0.mp4'') demo_world)"
    by (simp add: ext file_type_uploaded_def VIDEO_EXTS_def)
  have "upload_to_s3 s3_env ?cat
          (s3_key_of s3_env (JStr ''t2v'') 100 3 (splitext_ext ?cat)) demo_world
      = (Inl UploadFailed, request s3_env (PutObject ?cat ''generated/t2v/100_3.gif'') demo_world)
      \<and> length ''hi'' < 10 * 1024 * 1024"
    by (simp add: ext key up1)
  from inline_case [OF cat this]
  have b: "deliver_one s3_env (JStr ''t2v'') 100 3 ?cat demo_world
     = (Inr (JDict [(''type'', JStr ''image''), (''data'', JStr ''aGk=''), (''format'', JStr ''gif'')]),
        request s3_env (PutObject ?cat ''generated/t2v/100_3.gif'') demo_world)"
    by (simp add: ext file_type_inline_def VIDEO_EXTS_def b64_char_def b64_alphabet_def)
  have "upload_to_s3 demo_env ''/comfyui/output/big.mp4''
          (s3_key_of demo_env (JStr ''t2v'') 100 2 (splitext_ext ''/comfyui/output/big.mp4'')) big_world
      = (Inl (ValueError ''S3 configuration is incomplete''), big_world)
      \<and> 10 * 1024 * 1024 \<le> length big_content"
    using large by (simp add: up2)
  from error_case [OF big this]
  have c: "deliver_one demo_env (JStr ''t2v'') 100 2 ''/comfyui/output/big.mp4'' big_world
     = (Inr (JDict [(''type'', JStr ''error''),
                    (''error'', JStr ''File too large for base64 encoding: 10485760 bytes'')]),
        big_world)"
    by (simp add: length_big_content MAX_INLINE_def nums)
  have files: "\<forall>p \<in> set [?clip, ?cat]. \<exists>content. fs demo_world p = Some (File content)"
    by (simp add: clip cat)
  from loop_case [OF files, of s3_env "JStr ''t2v''" 100 0 "[]"]
  obtain records ws where
    loop: "deliver s3_env (JStr ''t2v'') 100 0 [?clip, ?cat] [] demo_world
             = (Inr records, ws ! Suc (Suc 0))"
    and len: "length records = Suc (Suc 0)"
    and first: "ws ! 0 = demo_world"
    and each: "\<forall>j < Suc (Suc 0). \<exists>content outcome.
                 fs demo_world ([?clip, ?cat] ! j) = Some (File content)
                 \<and> upload_to_s3 s3_env ([?clip, ?cat] ! j)
                     (s3_key_of s3_env (JStr ''t2v'') 100 (0 + j) (splitext_ext ([?clip, ?cat] ! j)))
                     (ws ! j) = (outcome, ws ! Suc j)
                 \<and> records ! j = tier_record ([?clip, ?cat] ! j) content outcome"
    by (auto simp del: deliver.simps)
  from each [rule_format, of 0] clip first
  have r0: "records ! 0 = JDict [(''type'', JStr ''video''),
                    (''url'', JStr ''https://s3.example/media/generated/t2v/100_0.mp4''),
                    (''filename'', JStr ''clip.mp4'')]"
    and w1: "ws ! Suc 0 = request s3_env (PutObject ?clip ''generated/t2v/100_0.mp4'') demo_world"
    by (auto simp: ext key up0 tiers)
  from each [rule_format, of "Suc 0"] cat
  have r1: "records ! Suc 0
              = JDict [(''type'', JStr ''image''), (''data'', JStr ''aGk=''), (''format'', JStr ''gif'')]"
    and w2: "ws ! Suc (Suc 0) = request s3_env (PutObject ?cat ''generated/t2v/100_1.gif'') (ws ! Suc 0)"
    by (auto simp: ext key up1 tiers)
  from len obtain x y where xy: "records = [x, y]"
    by (cases records; cases "tl records") auto
  with r0 r1 have recs: "records
      = [JDict [(''type'', JStr ''video''),
                (''url'', JStr ''https://s3.example/media/generated/t2v/100_0.mp4''),
                (''filename'', JStr ''clip.mp4'')],
         JDict [(''type'', JStr ''image''), (''data'', JStr ''aGk=''), (''format'', JStr ''gif'')]]"
    by simp
  have d: "deliver s3_env (JStr ''t2v'') 100 0 [?clip, ?cat] [] demo_world
     = (Inr [JDict [(''type'', JStr ''video''),
                    (''url'', JStr ''https://s3.example/media/generated/t2v/100_0.mp4''),
                    (''filename'', JStr ''clip.mp4'')],
             JDict [(''type'', JStr ''image''), (''data'', JStr ''aGk=''), (''format'', JStr ''gif'')]],
        request s3_env (PutObject ?cat ''generated/t2v/100_1.gif'')
          (request s3_env (PutObject ?clip ''generated/t2v/100_0.mp4'') demo_world))"
    unfolding loop recs w2 w1 ..
  have q: "queue_workflow demo_env (JDict []) demo_world
             = (Inr ''abc'', request demo_env (PostPrompt (JDict [])) demo_world)"
    by (simp add: queue_workflow_def demo_env_def raise_for_status_def)
  define ww where "ww = request demo_env (GetHistory ''abc'') (request demo_env (PostPrompt (JDict [])) demo_world)"
  have wt: "wait_for_completion demo_env ''abc'' DEFAULT_TIMEOUT
              (request demo_env (PostPrompt (JDict [])) demo_world) = (Inr demo_manifest, ww)"
    by (simp add: wait_for_completion_def wait_loop.simps poll_history_def history_outputs_def
          DEFAULT_TIMEOUT_def py_defs demo_defs request_def ww_def)
  have fsww: "fs ww = demo_fs"
    by (simp add: ww_def request_def demo_world_def)
  have clockww: "clock ww = 100"
    by (simp add: ww_def request_def demo_world_def demo_env_def)
  have catww: "fs ww ?cat = Some (File ''hi'')"
    by (simp add: fsww demo_fs_def)
  have got: "get_output_files (fs ww) demo_manifest = Inr [?cat]"
    by (simp add: fsww get_output_files_def collect_list_def py_defs path_defs demo_fs_def demo_manifest_def)
  have nodir: "\<forall>p \<in> set [?cat]. fs ww p \<noteq> Some Dir"
    by (simp add: fsww demo_fs_def)
  from q wt got nodir
  have "queue_workflow demo_env (JDict []) demo_world
          = (Inr ''abc'', request demo_env (PostPrompt (JDict [])) demo_world)
        \<and> wait_for_completion demo_env ''abc'' DEFAULT_TIMEOUT
            (request demo_env (PostPrompt (JDict [])) demo_world) = (Inr demo_manifest, ww)
        \<and> get_output_files (fs ww) demo_manifest = Inr [?cat]
        \<and> [?cat] \<noteq> []
        \<and> (\<forall>p \<in> set [?cat]. fs ww p \<noteq> Some Dir)"
    by simp
  from run_case [OF this, of 100 JNull]
  obtain records' ws' where
    run: "run_and_deliver demo_env 100 JNull (JDict []) demo_world
            = (Inr (completed records' JNull (clock (ws' ! Suc 0) - 100) ''abc''), ws' ! Suc 0)"
    and len': "length records' = Suc 0"
    and first': "ws' ! 0 = ww"
    and each': "\<forall>j < Suc 0. \<exists>content outcome.
                 fs ww ([?cat] ! j) = Some (File content)
                 \<and> upload_to_s3 demo_env ([?cat] ! j)
                     (s3_key_of demo_env JNull (clock ww) j (splitext_ext ([?cat] ! j)))
                     (ws' ! j) = (outcome, ws' ! Suc j)
                 \<and> records' ! j = tier_record ([?cat] ! j) content outcome"
    by auto
  from each' [rule_format, of 0] catww first'
  have r0': "records' ! 0
               = JDict [(''type'', JStr ''image''), (''data'', JStr ''aGk=''), (''format'', JStr ''gif'')]"
    and w1': "ws' ! Suc 0 = ww"
    by (auto simp: up2 tiers)
  from len' obtain z where "records' = [z]"
    by (cases records') auto
  with r0' have recs': "records'
      = [JDict [(''type'', JStr ''image''), (''data'', JStr ''aGk=''), (''format'', JStr ''gif'')]]"
    by simp
  from run have e: "run_and_deliver demo_env 100 JNull (JDict []) demo_world
     = (Inr (JDict [(''status'', JStr ''COMPLETED''),
                    (''outputs'', JList [JDict [(''type'', JStr ''image''), (''data'', JStr ''aGk=''),
                                                (''format'', JStr ''gif'')]]),
                    (''metadata'', JDict [(''workflow_name'', JNull),
                                          (''execution_time'', JFloat 0),
                                          (''prompt_id'', JStr ''abc'')])]),
        request demo_env (GetHistory ''abc'') (request demo_env (PostPrompt (JDict [])) demo_world))"
    unfolding recs' w1' clockww by (simp add: completed_def ww_def)
  from a b c d e show ?thesis by simp
qed


lemma deliver_one_unconfigured:
  "\<not> s3_configured env \<Longrightarrow>
   deliver_one env workflow_name timestamp i file_path w
     = (fallback_record env (fs w) file_path (splitext_ext file_path), w)"
  by (simp add: deliver_one_def Let_def upload_unconfigured)

lemma deliver_unconfigured:
  assumes "\<not> s3_configured env"
    and "\<forall>p \<in> set paths. \<exists>content. fs w p = Some (File content)"
  shows "\<exists>records. deliver env workflow_name timestamp i paths output_urls w
                      = (Inr (output_urls @ records), w)
           \<and> length records = length paths
           \<and> (\<forall>j content. j < length paths \<and> fs w (paths ! j) = Some (File content)
                \<longrightarrow> records ! j
                    = (if length content < MAX_INLINE
                       then inline_record (file_type_inline (splitext_ext (paths ! j)))
                              (b64encode content) (drop 1 (splitext_ext (paths ! j)))
                       else error_record (length content)))"
  using assms(2)
proof (induction paths arbitrary: i output_urls)
  case Nil
  then show ?case by simp
next
  case (Cons p paths)
  from Cons.prems obtain c where p: "fs w p = Some (File c)" by auto
  define r where "r = (if length c < MAX_INLINE
                       then inline_record (file_type_inline (splitext_ext p))
                              (b64encode c) (drop 1 (splitext_ext p))
                       else error_record (length c))"
  from p have one: "deliver_one env workflow_name timestamp i p w = (Inr r, w)"
    by (simp add: deliver_one_unconfigured [OF assms(1)] fallback_record_file r_def)
  from Cons.prems have "\<forall>p \<in> set paths. \<exists>content. fs w p = Some (File content)" by simp
  from Cons.IH [OF this, of "Suc i" "output_urls @ [r]"] obtain records where
    rest: "deliver env workflow_name timestamp (Suc i) paths (output_urls @ [r]) w
            = (Inr ((output_urls @ [r]) @ records), w)"
    and len: "length records = length paths"
    and each: "\<forall>j content. j < length paths \<and> fs w (paths ! j) = Some (File content)
                \<longrightarrow> records ! j
                    = (if length content < MAX_INLINE
                       then inline_record (file_type_inline (splitext_ext (paths ! j)))
                              (b64encode content) (drop 1 (splitext_ext (paths ! j)))
                       else error_record (length content))"
    by blast
  have "(r # records) ! j
          = (if length content < MAX_INLINE
             then inline_record (file_type_inline (splitext_ext ((p # paths) ! j)))
                    (b64encode content) (drop 1 (splitext_ext ((p # paths) ! j)))
             else error_record (length content))"
    if "j < length (p # paths) \<and> fs w ((p # paths) ! j) = Some (File content)" for j content
  proof (cases j)
    case 0
    with that p show ?thesis by (simp add: r_def)
  next
    case (Suc j')
    with that each show ?thesis by simp
  qed
  with one rest len show ?case
    by (intro exI [of _ "r # records"]) simp
qed

text \<open>
  Claim C4, as the code has it. When a storage setting is absent (or empty),
  \<open>upload_to_s3\<close> raises \<open>ValueError\<close> at once: the state is untouched, so
  the object store was not asked and no time has passed. The delivery loop
  catches it file by file: over produced files it returns, the state still
  untouched, with the inline record for each file under 10 MiB and the error
  record for each other file.
\<close>

theorem missing_settings_fall_back:
  "\<not> s3_configured env \<Longrightarrow>
     upload_to_s3 env file_path s3_key w = (Inl (ValueError ''S3 configuration is incomplete''), w)
     \<and> ((\<forall>p \<in> set paths. \<exists>content. fs w p = Some (File content))
          \<longrightarrow> (\<exists>records. deliver env workflow_name timestamp i paths output_urls w
                              = (Inr (output_urls @ records), w)
                  \<and> length records = length paths
                  \<and> (\<forall>j content. j < length paths \<and> fs w (paths ! j) = Some (File content)
                       \<longrightarrow> records ! j
                           = (if length content < MAX_INLINE
                              then inline_record (file_type_inline (splitext_ext (paths ! j)))
                                     (b64encode content) (drop 1 (splitext_ext (paths ! j)))
                              else error_record (length content)))))"
  using upload_unconfigured deliver_unconfigured by blast

theorem missing_settings_fall_back_witness:
  "s3_secret_access_key nosecret_env = None
   \<and> upload_to_s3 nosecret_env ''/comfyui/output/cat.gif'' ''generated/t2v/100_0.gif'' demo_world
       = (Inl (ValueError ''S3 configuration is incomplete''), demo_world)
   \<and> deliver nosecret_env (JStr ''t2v'') 100 0 [''/comfyui/output/cat.gif''] [] demo_world
       = (Inr [inline_record ''image'' ''aGk='' ''gif''], demo_world)"
proof -
  have absent: "s3_secret_access_key nosecret_env = None"
    by (simp add: nosecret_env_def)
  then have unconfigured: "\<not> s3_configured nosecret_env"
    by (simp add: s3_configured_def setting_present_def)
  have files: "\<forall>p \<in> set [''/comfyui/output/cat.gif'']. \<exists>content. fs demo_world p = Some (File content)"
    by (simp add: demo_world_def demo_fs_def)
  have cat: "fs demo_world ([''/comfyui/output/cat.gif''] ! 0) = Some (File ''hi'')"
    by (simp add: demo_world_def demo_fs_def)
  note fact = missing_settings_fall_back [OF unconfigured]
  from fact [THEN conjunct1]
  have a: "upload_to_s3 nosecret_env ''/comfyui/output/cat.gif'' ''generated/t2v/100_0.gif'' demo_world
       = (Inl (ValueError ''S3 configuration is incomplete''), demo_world)" .
  from fact [THEN conjunct2, THEN mp, OF files, of "JStr ''t2v''" 100 0 "[]"]
  obtain records where
    d: "deliver nosecret_env (JStr ''t2v'') 100 0 [''/comfyui/output/cat.gif''] [] demo_world
         = (Inr ([] @ records), demo_world)"
    and len: "length records = length [''/comfyui/output/cat.gif'']"
    and each: "\<forall>j content. j < length [''/comfyui/output/cat.gif'']
                 \<and> fs demo_world ([''/comfyui/output/cat.gif''] ! j) = Some (File content)
                \<longrightarrow> records ! j
                    = (if length content < MAX_INLINE
                       then inline_record (file_type_inline (splitext_ext ([''/comfyui/output/cat.gif''] ! j)))
                              (b64encode content) (drop 1 (splitext_ext ([''/comfyui/output/cat.gif''] ! j)))
                       else error_record (length content))"
    by blast
  from each [rule_format, of 0 "''hi''"] cat
  have "records ! 0 = inline_record ''image'' ''aGk='' ''gif''"
    by (simp add: MAX_INLINE_def splitext_ext_def basename_def file_type_inline_def VIDEO_EXTS_def
          b64_char_def b64_alphabet_def)
  with len have "records = [inline_record ''image'' ''aGk='' ''gif'']"
    by (cases records) simp_all
  with d absent a show ?thesis by simp
qed

text \<open>
  The claim as stated fails: with the secret key unset and a store that
  would take the file, the invocation is not failed by the configuration; it
  completes, with the inline record, and the store is never asked.
\<close>

theorem missing_settings_counterexample:
  "s3_secret_access_key nosecret_env = None
   \<and> fst (handler nosecret_env t2v_event demo_world)
       = JDict [(''status'', JStr ''COMPLETED''),
                (''outputs'', JList [JDict [(''type'', JStr ''image''), (''data'', JStr ''aGk=''),
                                            (''format'', JStr ''gif'')]]),
                (''metadata'', JDict [(''workflow_name'', JStr ''t2v''),
                                      (''execution_time'', JFloat 0),
                                      (''prompt_id'', JStr ''abc'')])]
   \<and> trace (snd (handler nosecret_env t2v_event demo_world))
       = [(100, PostPrompt (JDict [])), (100, GetHistory ''abc'')]"
  by (simp add: nosecret_env_def s3_env_def t2v_event_def demo_defs handler_defs py_defs path_defs
        record_defs wait_loop.simps Let_def MAX_INLINE_def)

subsection \<open>The result mapping\<close>

text \<open>
  Claim C3 does not hold of the code on the base64 path. A produced
  \<open>cat.gif\<close> whose upload fails is delivered with \<open>type = image\<close>; the
  extension \<open>.gif\<close> is neither a video nor an image extension, and the
  upload path classifies it \<open>unknown\<close>.
\<close>

theorem inline_gif_is_classified_image:
  "fst (handler demo_env gif_event demo_world)
     = JDict [(''status'', JStr ''COMPLETED''),
              (''outputs'', JList [JDict [(''type'', JStr ''image''), (''data'', JStr ''aGk=''),
                                          (''format'', JStr ''gif'')]]),
              (''metadata'', JDict [(''workflow_name'', JNull),
                                    (''execution_time'', JFloat 0),
                                    (''prompt_id'', JStr ''abc'')])]
   \<and> file_type_uploaded (splitext_ext ''/comfyui/output/cat.gif'') = ''unknown''
   \<and> file_type_inline (splitext_ext ''/comfyui/output/cat.gif'') = ''image''"
  by (simp add: gif_event_def demo_defs handler_defs py_defs path_defs
        record_defs wait_loop.simps Let_def MAX_INLINE_def)

text \<open>
  Claim C2 does not hold of the code at the two early returns. Without
  \<open>workflow_name\<close> and \<open>workflow_json\<close>, and when no output file is found, the
  FAILED mapping has \<open>error\<close> and \<open>status\<close> only; the FAILED mapping made from
  an exception (here a missing workflow file) has \<open>execution_time\<close> as well.
\<close>

theorem early_failures_lack_execution_time:
  "fst (handler demo_env (JDict [(''input'', JDict [])]) demo_world)
     = JDict [(''error'', JStr ''workflow_name or workflow_json is required''),
              (''status'', JStr ''FAILED'')]
   \<and> fst (handler empty_env gif_event demo_world)
     = JDict [(''error'', JStr ''No output files generated''), (''status'', JStr ''FAILED'')]
   \<and> fst (handler demo_env vace_event demo_world)
     = JDict [(''error'', JStr ''Workflow file not found: /comfyui/workflows/vace.json''),
              (''status'', JStr ''FAILED''), (''execution_time'', JFloat 0)]"
  by (simp add: gif_event_def vace_event_def empty_env_def demo_defs handler_defs py_defs path_defs
        record_defs str_of_error_def wait_loop.simps Let_def)


end
